theory Spec2Isabelle
  imports Main "HOL-Library.Sublist"
begin

text \<open>
  A shallow embedding of \<open>src/lib/sheetToGuesstimate.ts\<close>. JavaScript strings are modelled
  as \<open>string\<close>, one character per code unit; the characters of HOL have 8 bits, so the
  model covers texts whose code units are below 256. The empty string is the only falsy
  string. Numbers that the code reads out of cell addresses are natural numbers or
  integers (exact below \<open>2^53\<close>, where JavaScript's numbers are exact too, and printed in
  plain decimal notation).
  Two services of the JavaScript runtime are parameters of the model:
  \<^item> \<open>pct\<close>, the text of \<open>parseFloat(s) / 100\<close> (binary floating point and its printing);
  \<^item> \<open>mkRe\<close>, the constructor \<open>new RegExp(source, "gi")\<close>: \<open>None\<close> when it throws a
    SyntaxError, otherwise the matcher, which maps the text before a position (reversed)
    and the text from that position on to the length of the match there, if any.
  The regular expressions written out in the source are modelled one by one as matchers
  at a position, and the global scan of \<open>replaceAll\<close>, \<open>match\<close> and \<open>matchAll\<close> walks the
  string from left to right, resuming after each match.
\<close>

section \<open>Strings\<close>

definition isDigit :: "char \<Rightarrow> bool" where
  "isDigit c = (c \<in> set ''0123456789'')"

definition isUpper :: "char \<Rightarrow> bool" where
  "isUpper c = (c \<in> set ''ABCDEFGHIJKLMNOPQRSTUVWXYZ'')"

definition isLower :: "char \<Rightarrow> bool" where
  "isLower c = (c \<in> set ''abcdefghijklmnopqrstuvwxyz'')"

definition toUpperChar :: "char \<Rightarrow> char" where
  "toUpperChar c =
     (case map_of (zip ''abcdefghijklmnopqrstuvwxyz'' ''ABCDEFGHIJKLMNOPQRSTUVWXYZ'') c of
        Some u \<Rightarrow> u
      | None \<Rightarrow> c)"

text \<open>
  \<open>toUpperChar\<close> and \<open>canonicalCase\<close> serve the regular expressions with the flag \<open>i\<close>
  (and without the flag \<open>u\<close>) whose letters are ASCII letters: such a letter matches its
  two ASCII forms and no character above 127, so the pattern and the text are compared
  after the letters a to z are mapped to their capitals.
\<close>

definition canonicalCase :: "string \<Rightarrow> string" where
  "canonicalCase s = map toUpperChar s"

text \<open>
  \<open>toUpperCase\<close> is \<open>String.prototype.toUpperCase\<close> on code units below 256: the letters
  a to z and the Latin-1 letters from 0xE0 to 0xFE (0xF7, the division sign, excepted)
  move to their capitals 32 places below, the sharp s (0xDF) becomes \<open>SS\<close>, every other
  character stays. The capitals of the micro sign (0xB5) and of y with diaeresis (0xFF)
  lie above 255: the model leaves these two characters as they are, and a theorem whose
  conclusion shows the upper-case text excludes them.
\<close>

definition latin1Lower :: string where
  "latin1Lower = ''abcdefghijklmnopqrstuvwxyz'' @
     [CHR 0xE0, CHR 0xE1, CHR 0xE2, CHR 0xE3, CHR 0xE4, CHR 0xE5, CHR 0xE6, CHR 0xE7,
      CHR 0xE8, CHR 0xE9, CHR 0xEA, CHR 0xEB, CHR 0xEC, CHR 0xED, CHR 0xEE, CHR 0xEF,
      CHR 0xF0, CHR 0xF1, CHR 0xF2, CHR 0xF3, CHR 0xF4, CHR 0xF5, CHR 0xF6,
      CHR 0xF8, CHR 0xF9, CHR 0xFA, CHR 0xFB, CHR 0xFC, CHR 0xFD, CHR 0xFE]"

definition latin1Upper :: string where
  "latin1Upper = ''ABCDEFGHIJKLMNOPQRSTUVWXYZ'' @
     [CHR 0xC0, CHR 0xC1, CHR 0xC2, CHR 0xC3, CHR 0xC4, CHR 0xC5, CHR 0xC6, CHR 0xC7,
      CHR 0xC8, CHR 0xC9, CHR 0xCA, CHR 0xCB, CHR 0xCC, CHR 0xCD, CHR 0xCE, CHR 0xCF,
      CHR 0xD0, CHR 0xD1, CHR 0xD2, CHR 0xD3, CHR 0xD4, CHR 0xD5, CHR 0xD6,
      CHR 0xD8, CHR 0xD9, CHR 0xDA, CHR 0xDB, CHR 0xDC, CHR 0xDD, CHR 0xDE]"

definition jsUpperChar :: "char \<Rightarrow> string" where
  "jsUpperChar c =
     (if c = CHR 0xDF then ''SS''
      else case map_of (zip latin1Lower latin1Upper) c of Some u \<Rightarrow> [u] | None \<Rightarrow> [c])"

definition toUpperCase :: "string \<Rightarrow> string" where
  "toUpperCase s = concat (map jsUpperChar s)"

fun startsWith :: "string \<Rightarrow> string \<Rightarrow> bool" where
  "startsWith s [] = True"
| "startsWith [] (p # ps) = False"
| "startsWith (c # cs) (p # ps) = (c = p \<and> startsWith cs ps)"

definition startsWithCI :: "string \<Rightarrow> string \<Rightarrow> bool" where
  "startsWithCI s p = startsWith (canonicalCase s) (canonicalCase p)"

fun includesStr :: "string \<Rightarrow> string \<Rightarrow> bool" where
  "includesStr [] p = (p = [])"
| "includesStr (c # cs) p = (startsWith (c # cs) p \<or> includesStr cs p)"

text \<open>
  \<open>s.replaceAll(pat, rep)\<close> for a string \<open>pat\<close>: every occurrence, found from left to
  right and not overlapping the one before, is replaced. The counter of \<open>replaceStrScan\<close>
  is the number of characters of the current occurrence still to skip. The replacement is
  inserted as it is: the replacement texts of this program hold no \<open>$\<close> pattern as long as
  the formula holds no \<open>$\<close>, and \<open>getCellData\<close> removes every \<open>$\<close> before the passes run.
\<close>

fun replaceStrScan :: "string \<Rightarrow> string \<Rightarrow> nat \<Rightarrow> string \<Rightarrow> string" where
  "replaceStrScan pat rep k [] = []"
| "replaceStrScan pat rep (Suc k) (c # cs) = replaceStrScan pat rep k cs"
| "replaceStrScan pat rep 0 (c # cs) =
     (if startsWith (c # cs) pat then rep @ replaceStrScan pat rep (length pat - 1) cs
      else c # replaceStrScan pat rep 0 cs)"

definition replaceAllStr :: "string \<Rightarrow> string \<Rightarrow> string \<Rightarrow> string" where
  "replaceAllStr pat rep s =
     (if pat = [] then rep @ concat (map (\<lambda>c. c # rep) s) else replaceStrScan pat rep 0 s)"

text \<open>\<open>s.split(sep)\<close> for a one-character separator, and \<open>xs.join(sep)\<close>.\<close>

fun splitOn :: "char \<Rightarrow> string \<Rightarrow> string list" where
  "splitOn sep [] = [[]]"
| "splitOn sep (c # cs) =
     (if c = sep then [] # splitOn sep cs
      else (case splitOn sep cs of p # ps \<Rightarrow> (c # p) # ps | [] \<Rightarrow> [[c]]))"

fun joinWith :: "string \<Rightarrow> string list \<Rightarrow> string" where
  "joinWith sep [] = []"
| "joinWith sep [x] = x"
| "joinWith sep (x # y # ys) = x @ sep @ joinWith sep (y # ys)"

section \<open>Numbers\<close>

text \<open>
  Printing and reading of whole numbers: \<open>showNat\<close> and \<open>showInt\<close> are the template
  literal of a whole number, \<open>parseInt\<close> is \<open>parseInt(s, 10)\<close> (\<open>None\<close> for NaN), and
  \<open>jsNumberNat\<close> is \<open>Number(s)\<close> on a text of digits, where \<open>inlineSum\<close> uses it
  (\<open>None\<close> for NaN).
\<close>

definition digitChar :: "nat \<Rightarrow> char" where
  "digitChar d = char_of (48 + d)"

fun showNat :: "nat \<Rightarrow> string" where
  "showNat n = (if n < 10 then [digitChar n] else showNat (n div 10) @ [digitChar (n mod 10)])"

definition showInt :: "int \<Rightarrow> string" where
  "showInt i = (if i < 0 then CHR ''-'' # showNat (nat (- i)) else showNat (nat i))"

definition digitVal :: "char \<Rightarrow> nat" where
  "digitVal c = of_char c - 48"

definition digitsToNat :: "string \<Rightarrow> nat" where
  "digitsToNat s = foldl (\<lambda>acc c. 10 * acc + digitVal c) 0 s"

definition isWhiteSpace :: "char \<Rightarrow> bool" where
  "isWhiteSpace c = (of_char c \<in> {9, 10, 11, 12, 13, 32, 160 :: nat})"

definition parseInt :: "string \<Rightarrow> int option" where
  "parseInt s =
     (let t = dropWhile isWhiteSpace s;
          neg = startsWith t ''-'';
          u = (if startsWith t ''-'' \<or> startsWith t ''+'' then drop 1 t else t);
          ds = takeWhile isDigit u
      in if ds = [] then None
         else Some (if neg then - int (digitsToNat ds) else int (digitsToNat ds)))"

definition jsNumberNat :: "string \<Rightarrow> nat option" where
  "jsNumberNat s = (if list_all isDigit s then Some (digitsToNat s) else None)"

section \<open>Scanning\<close>

text \<open>
  The global scan of a regular expression. A matcher gives, at a position, the length of
  the match there and what the caller needs of it. \<open>matchScan\<close> lists the matches
  (\<open>match\<close>, \<open>matchAll\<close>; its matchers never match the empty text). \<open>replaceScan\<close> is
  \<open>replaceAll\<close>: its matcher also sees the text before the position, reversed, and
  gives the text that replaces the match; after an empty match the scan copies one
  character and goes on, as JavaScript does.
\<close>

fun matchScan :: "(string \<Rightarrow> (nat \<times> 'a) option) \<Rightarrow> nat \<Rightarrow> string \<Rightarrow> 'a list" where
  "matchScan m k [] = []"
| "matchScan m (Suc k) (c # cs) = matchScan m k cs"
| "matchScan m 0 (c # cs) =
     (case m (c # cs) of
        None \<Rightarrow> matchScan m 0 cs
      | Some (n, x) \<Rightarrow> x # matchScan m (n - 1) cs)"

fun replaceScan :: "(string \<Rightarrow> string \<Rightarrow> (nat \<times> string) option) \<Rightarrow> nat \<Rightarrow> string \<Rightarrow> string \<Rightarrow> string" where
  "replaceScan m k pre [] =
     (if k = 0 then (case m pre [] of Some (n, r) \<Rightarrow> r | None \<Rightarrow> []) else [])"
| "replaceScan m (Suc k) pre (c # cs) = replaceScan m k (c # pre) cs"
| "replaceScan m 0 pre (c # cs) =
     (case m pre (c # cs) of
        None \<Rightarrow> c # replaceScan m 0 (c # pre) cs
      | Some (0, r) \<Rightarrow> r @ c # replaceScan m 0 (c # pre) cs
      | Some (Suc n, r) \<Rightarrow> r @ replaceScan m n (c # pre) cs)"

definition replaceAllRe :: "(string \<Rightarrow> string \<Rightarrow> (nat \<times> string) option) \<Rightarrow> string \<Rightarrow> string" where
  "replaceAllRe m s = replaceScan m 0 [] s"

section \<open>deRange\<close>

text \<open>
  \<open>deRange(start, end)\<close>: \<open>start[0]\<close> or \<open>end[0]\<close> undefined (an empty text) or a number that
  is NaN leaves both iterations without any result.
\<close>

definition deRange :: "string \<Rightarrow> string \<Rightarrow> string list" where
  "deRange start endS =
     (case (start, endS) of
        (letterStart # startRest, letterEnd # endRest) \<Rightarrow>
          (case (parseInt startRest, parseInt endRest) of
             (Some numberStart, Some numberEnd) \<Rightarrow>
               concat (map (\<lambda>letter. map (\<lambda>number. letter # showInt number) [numberStart..numberEnd])
                         (map char_of [of_char letterStart ..< Suc (of_char letterEnd) :: nat]))
           | _ \<Rightarrow> [])
      | _ \<Rightarrow> [])"

section \<open>evalPercentage\<close>

text \<open>
  The matcher of \<open>/([0-9.]+)%/g\<close>: the longest run of digits and dots, followed by a
  percent sign. It gives \<open>match[0]\<close> and \<open>match[1]\<close>. The loop replaces, match after match,
  every occurrence of \<open>match[0]\<close> in the current formula.
\<close>

definition isPercentChar :: "char \<Rightarrow> bool" where
  "isPercentChar c = (isDigit c \<or> c = CHR ''.'')"

definition percentMatch :: "string \<Rightarrow> (nat \<times> string \<times> string) option" where
  "percentMatch s =
     (let num = takeWhile isPercentChar s
      in if num \<noteq> [] \<and> startsWith (drop (length num) s) ''%''
         then Some (length num + 1, num @ ''%'', num) else None)"

definition evalPercentage :: "(string \<Rightarrow> string) \<Rightarrow> string \<Rightarrow> string" where
  "evalPercentage pct formula =
     foldl (\<lambda>f (m0, m1). replaceAllStr m0 (pct m1) f) formula (matchScan percentMatch 0 formula)"

section \<open>inlineSUMPRODUCT\<close>

text \<open>
  The matcher of the regular expression of \<open>inlineSUMPRODUCT\<close> (line 332): the name and
  an opening parenthesis, two ranges of addresses with a comma between them, a closing
  parenthesis. With the flag \<open>i\<close> the class \<open>[A-Z]\<close> takes lower-case letters too.
  The matcher gives \<open>match[0]\<close> and the four addresses.
\<close>

definition isLetterCI :: "char \<Rightarrow> bool" where
  "isLetterCI c = (isUpper c \<or> isLower c)"

text \<open>\<open>[A-Z][0-9]+\<close> at the head of a string: the token and what follows it.\<close>
definition addrToken :: "(char \<Rightarrow> bool) \<Rightarrow> string \<Rightarrow> (string \<times> string) option" where
  "addrToken isLetter s =
     (case s of
        [] \<Rightarrow> None
      | c # cs \<Rightarrow>
          (let ds = takeWhile isDigit cs
           in if isLetter c \<and> ds \<noteq> [] then Some (c # ds, drop (length ds) cs) else None))"

definition expectChar :: "char \<Rightarrow> string \<Rightarrow> string option" where
  "expectChar c s = (case s of [] \<Rightarrow> None | d # ds \<Rightarrow> if d = c then Some ds else None)"

definition sumproductMatch :: "string \<Rightarrow> (nat \<times> string \<times> string \<times> string \<times> string \<times> string) option" where
  "sumproductMatch s =
     (if \<not> startsWithCI s ''SUMPRODUCT('' then None
      else case addrToken isLetterCI (drop 11 s) of None \<Rightarrow> None | Some (g1, r1) \<Rightarrow>
        (case expectChar CHR '':'' r1 of None \<Rightarrow> None | Some r2 \<Rightarrow>
        (case addrToken isLetterCI r2 of None \<Rightarrow> None | Some (g2, r3) \<Rightarrow>
        (case expectChar CHR '','' r3 of None \<Rightarrow> None | Some r4 \<Rightarrow>
        (case addrToken isLetterCI r4 of None \<Rightarrow> None | Some (g3, r5) \<Rightarrow>
        (case expectChar CHR '':'' r5 of None \<Rightarrow> None | Some r6 \<Rightarrow>
        (case addrToken isLetterCI r6 of None \<Rightarrow> None | Some (g4, r7) \<Rightarrow>
        (case expectChar CHR '')'' r7 of None \<Rightarrow> None | Some r8 \<Rightarrow>
           Some (length s - length r8, take (length s - length r8) s, g1, g2, g3, g4)))))))))"

fun inlineSUMPRODUCTLoop ::
  "(string \<times> string \<times> string \<times> string \<times> string) list \<Rightarrow> string \<Rightarrow> string" where
  "inlineSUMPRODUCTLoop [] formula = formula"
| "inlineSUMPRODUCTLoop ((m0, startSum, endSum, startProd, endProd) # ms) formula =
     (let sumRange = deRange startSum endSum;
          prodRange = deRange startProd endProd
      in if length sumRange = 0 \<or> length sumRange \<noteq> length prodRange then formula
         else let inlinedSumProd =
                    concat (map (\<lambda>(sum, prod). ''+'' @ sum @ ''*'' @ prod) (zip sumRange prodRange))
              in inlineSUMPRODUCTLoop ms (replaceAllStr m0 (''('' @ inlinedSumProd @ '')'') formula))"

definition inlineSUMPRODUCT :: "string \<Rightarrow> string" where
  "inlineSUMPRODUCT formula = inlineSUMPRODUCTLoop (matchScan sumproductMatch 0 formula) formula"

section \<open>inlineAverage\<close>

text \<open>
  \<open>callMatch fname\<close> is the matcher of the regular expressions of \<open>inlineAverage\<close>
  (line 374) and \<open>replaceLN\<close> (line 360): the name and an opening parenthesis, one or more
  characters other than parentheses, a closing parenthesis, letter case ignored. It
  gives \<open>match[0]\<close> and \<open>match[1]\<close>.
\<close>

definition isNotParen :: "char \<Rightarrow> bool" where
  "isNotParen c = (c \<noteq> CHR ''('' \<and> c \<noteq> CHR '')'')"

definition callMatch :: "string \<Rightarrow> string \<Rightarrow> (nat \<times> string \<times> string) option" where
  "callMatch fname s =
     (if \<not> startsWithCI s (fname @ ''('') then None
      else let arg = takeWhile isNotParen (drop (length fname + 1) s)
           in if arg \<noteq> [] \<and> startsWith (drop (length fname + 1 + length arg) s) '')''
              then Some (length fname + length arg + 2, take (length fname + length arg + 2) s, arg)
              else None)"

definition averageArgs :: "string \<Rightarrow> string list" where
  "averageArgs m1 =
     concat (map (\<lambda>arg. if CHR '':'' \<in> set arg
                         then (case splitOn CHR '':'' arg of
                                 a # b # _ \<Rightarrow> deRange a b
                               | _ \<Rightarrow> [])
                         else [arg])
                 (splitOn CHR '','' m1))"

definition inlineAverage :: "string \<Rightarrow> string" where
  "inlineAverage formula =
     foldl (\<lambda>f (m0, m1).
              let args = averageArgs m1
              in replaceAllStr m0 (''(('' @ joinWith ''+'' args @ '')/'' @ showNat (length args) @ '')'') f)
           formula (matchScan (callMatch ''AVERAGE'') 0 formula)"

section \<open>inlineSum\<close>

text \<open>
  The matchers of the three regular expressions of \<open>inlineSum\<close>: the text \<open>SUM\<close>
  (line 299); \<open>_SUM(\<close>, one or more addresses, each with an optional comma after it, and
  a closing parenthesis (line 300; the test on the lengths in \<open>commaList\<close> always holds
  and only shows that the recursion ends); \<open>_SUM(\<close>, one range of two addresses and a
  closing parenthesis (line 305).
\<close>

definition literalMatch :: "string \<Rightarrow> string \<Rightarrow> (nat \<times> string) option" where
  "literalMatch lit s = (if startsWith s lit then Some (length lit, lit) else None)"

fun commaList :: "string \<Rightarrow> string option" where
  "commaList s =
     (case addrToken isUpper s of
        None \<Rightarrow> None
      | Some (tok, r) \<Rightarrow>
          (let r' = (if startsWith r '','' then drop 1 r else r)
           in if startsWith r' '')'' then Some (drop 1 r')
              else if length r' < length s then commaList r' else None))"


definition commaSumMatch :: "string \<Rightarrow> (nat \<times> string) option" where
  "commaSumMatch s =
     (if \<not> startsWith s ''_SUM('' then None
      else case commaList (drop 5 s) of
             None \<Rightarrow> None
           | Some r \<Rightarrow> Some (length s - length r, take (length s - length r) s))"

definition rangeSumMatch :: "string \<Rightarrow> (nat \<times> string) option" where
  "rangeSumMatch s =
     (if \<not> startsWith s ''_SUM('' then None
      else case addrToken isUpper (drop 5 s) of None \<Rightarrow> None | Some (g1, r1) \<Rightarrow>
        (case expectChar CHR '':'' r1 of None \<Rightarrow> None | Some r2 \<Rightarrow>
        (case addrToken isUpper r2 of None \<Rightarrow> None | Some (g2, r3) \<Rightarrow>
        (case expectChar CHR '')'' r3 of None \<Rightarrow> None | Some r4 \<Rightarrow>
           Some (length s - length r4, take (length s - length r4) s)))))"

definition sumTerms :: "char \<Rightarrow> nat \<Rightarrow> nat \<Rightarrow> string" where
  "sumTerms letter startNumber endNumber =
     (letter # showNat startNumber) @
     concat (map (\<lambda>n. CHR ''+'' # letter # showNat n) [startNumber + 1 ..< endNumber + 1])"

fun inlineSumLoop :: "string list \<Rightarrow> string \<Rightarrow> string" where
  "inlineSumLoop [] formula = formula"
| "inlineSumLoop (sm # sums) formula =
     (let contents = drop 5 (butlast sm)
      in case splitOn CHR '':'' contents of
           start # endS # _ \<Rightarrow>
             (if take 1 start \<noteq> take 1 endS then formula
              else case (start, jsNumberNat (drop 1 start), jsNumberNat (drop 1 endS)) of
                     (letter # _, Some startNumber, Some endNumber) \<Rightarrow>
                       inlineSumLoop sums
                         (replaceAllStr sm (''('' @ sumTerms letter startNumber endNumber @ '')'') formula)
                   | _ \<Rightarrow> formula)
         | _ \<Rightarrow> formula)"

definition inlineSum :: "string \<Rightarrow> string" where
  "inlineSum formula0 =
     (if \<not> includesStr (toUpperCase formula0) ''SUM'' then formula0
      else let formula = replaceAllStr ''SUM'' ''_SUM'' (toUpperCase formula0);
               sumsNumber = length (matchScan (literalMatch ''SUM'') 0 formula);
               commaSums = matchScan commaSumMatch 0 formula
           in if length commaSums = sumsNumber then replaceAllStr ''_SUM'' ''sum'' formula
              else let sums = matchScan rangeSumMatch 0 formula
                   in if sums = [] \<or> length sums \<noteq> sumsNumber then formula
                      else inlineSumLoop sums formula)"

section \<open>replaceLN, replacePV\<close>

text \<open>
  \<open>replaceLN\<close> puts the argument of each call into the text of the replacement.
  \<open>pvMatch\<close> is the matcher of the regular expression of \<open>replacePV\<close> (line 368): three
  arguments without a comma inside, separated by commas; the third one is the longest
  text that is followed by the optional \<open>,,1\<close> and the closing parenthesis.
\<close>

definition lnMatch :: "string \<Rightarrow> string \<Rightarrow> (nat \<times> string) option" where
  "lnMatch pre s =
     (case callMatch ''LN'' s of
        None \<Rightarrow> None
      | Some (n, m0, g1) \<Rightarrow> Some (n, ''(1 / log10(2.71828) * log10('' @ g1 @ ''))''))"

definition replaceLN :: "string \<Rightarrow> string" where
  "replaceLN formula = replaceAllRe lnMatch formula"

definition isNotComma :: "char \<Rightarrow> bool" where
  "isNotComma c = (c \<noteq> CHR '','')"

text \<open>The longest non-empty proper prefix of a string that is followed by \<open>)\<close>.\<close>
fun beforeLastParen :: "string \<Rightarrow> string option" where
  "beforeLastParen [] = None"
| "beforeLastParen (c # cs) =
     (case beforeLastParen cs of
        Some p \<Rightarrow> Some (c # p)
      | None \<Rightarrow> if startsWith cs '')'' then Some [c] else None)"

definition pvMatch :: "string \<Rightarrow> string \<Rightarrow> (nat \<times> string) option" where
  "pvMatch pre s =
     (if \<not> startsWithCI s ''PV('' then None
      else let r0 = drop 3 s; g1 = takeWhile isNotComma r0; r1 = drop (length g1) r0
           in if g1 = [] \<or> \<not> startsWith r1 '','' then None
              else let r2 = drop 1 r1; g2 = takeWhile isNotComma r2; r3 = drop (length g2) r2
                   in if g2 = [] \<or> \<not> startsWith r3 '','' then None
                      else let r4 = drop 1 r3; run = takeWhile isNotComma r4; r5 = drop (length run) r4;
                               rep = (\<lambda>g3. ''(-('' @ g3 @ '')*(1-(1+('' @ g1 @ ''))^(-('' @ g2 @ '')))/('' @ g1 @ ''))'')
                           in if run \<noteq> [] \<and> startsWith r5 '',,1)''
                              then Some (length g1 + length g2 + length run + 9, rep run)
                              else case beforeLastParen run of
                                     None \<Rightarrow> None
                                   | Some g3 \<Rightarrow> Some (length g1 + length g2 + length g3 + 6, rep g3))"

definition replacePV :: "string \<Rightarrow> string" where
  "replacePV formula = replaceAllRe pvMatch formula"

section \<open>The pipeline of getCellData\<close>

definition translate :: "(string \<Rightarrow> string) \<Rightarrow> string \<Rightarrow> string" where
  "translate pct formula =
     replacePV (replaceLN (inlineSum (inlineAverage (inlineSUMPRODUCT (evalPercentage pct formula)))))"

section \<open>Text classification\<close>

definition trim :: "string \<Rightarrow> string" where
  "trim s = rev (dropWhile isWhiteSpace (rev (dropWhile isWhiteSpace s)))"

definition isHexDigit :: "char \<Rightarrow> bool" where
  "isHexDigit c = (c \<in> set ''0123456789abcdefABCDEF'')"

definition isExponentPart :: "string \<Rightarrow> bool" where
  "isExponentPart s =
     (s = [] \<or>
      ((startsWith s ''e'' \<or> startsWith s ''E'') \<and>
       (let t = drop 1 s;
            u = (if startsWith t ''+'' \<or> startsWith t ''-'' then drop 1 t else t)
        in u \<noteq> [] \<and> list_all isDigit u)))"

definition isDecimalLiteral :: "string \<Rightarrow> bool" where
  "isDecimalLiteral s =
     (let ip = takeWhile isDigit s; r = drop (length ip) s
      in if startsWith r ''.''
         then (let fp = takeWhile isDigit (drop 1 r)
               in (ip \<noteq> [] \<or> fp \<noteq> []) \<and> isExponentPart (drop (1 + length fp) r))
         else ip \<noteq> [] \<and> isExponentPart r)"

definition isNumericString :: "string \<Rightarrow> bool" where
  "isNumericString s =
     (let t = trim s
      in t = [] \<or>
         ((startsWith t ''0x'' \<or> startsWith t ''0X'') \<and> drop 2 t \<noteq> [] \<and> list_all isHexDigit (drop 2 t)) \<or>
         ((startsWith t ''0o'' \<or> startsWith t ''0O'') \<and> drop 2 t \<noteq> [] \<and> list_all (\<lambda>c. c \<in> set ''01234567'') (drop 2 t)) \<or>
         ((startsWith t ''0b'' \<or> startsWith t ''0B'') \<and> drop 2 t \<noteq> [] \<and> list_all (\<lambda>c. c \<in> set ''01'') (drop 2 t)) \<or>
         (let u = (if startsWith t ''+'' \<or> startsWith t ''-'' then drop 1 t else t)
          in u = ''Infinity'' \<or> isDecimalLiteral u))"

definition jsIsNaN :: "string \<Rightarrow> bool" where
  "jsIsNaN s = (\<not> isNumericString s)"

definition isPercentText :: "string \<Rightarrow> bool" where
  "isPercentText s =
     (let a = (if startsWith s ''-'' then drop 1 s else s);
          b = (case a of c # cs \<Rightarrow> if isWhiteSpace c then cs else a | [] \<Rightarrow> a);
          ip = takeWhile isDigit b; r = drop (length ip) b;
          r' = (if startsWith r ''.'' then drop 1 r else r);
          fp = takeWhile isDigit r'
      in ip \<noteq> [] \<and> drop (length fp) r' = ''%'')"

definition percentString :: "string \<Rightarrow> string" where
  "percentString s =
     (let t = dropWhile isWhiteSpace s;
          neg = startsWith t ''-'';
          u = (if neg \<or> startsWith t ''+'' then drop 1 t else t);
          ip = takeWhile isDigit u; r = drop (length ip) u;
          fp = (if startsWith r ''.'' then takeWhile isDigit (drop 1 r) else [])
      in if ip = [] \<and> fp = [] then ''NaN''
         else let ip' = replicate (2 - length ip) CHR ''0'' @ ip;
                  newInt = dropWhile (\<lambda>c. c = CHR ''0'') (take (length ip' - 2) ip');
                  newFrac = rev (dropWhile (\<lambda>c. c = CHR ''0'') (rev (drop (length ip' - 2) ip' @ fp)));
                  body = (if newInt = [] then ''0'' else newInt) @
                         (if newFrac = [] then [] else CHR ''.'' # newFrac)
              in if neg \<and> body \<noteq> ''0'' then CHR ''-'' # body else body)"

text \<open>
  The object \<open>Grid.cells\<close> is an association list in insertion order, the order in which
  \<open>Object.values\<close> and \<open>Object.keys\<close> go through it (a cell address is not an integer
  key). A cell of the workbook is given by what \<open>getCellData\<close> reads of it: its address
  and sheet name, its text (the getter may throw, or give rich text), whether its value
  is a number (then with the text that \<open>toString\<close> prints for it), and its formula.
\<close>

record CellData =
  address :: string
  cvalue :: string
  description :: string
  formula :: string
  rowNum :: int
  colNum :: int

record Grid =
  cells :: "(string \<times> CellData) list"
  sheetNames :: "string list"

datatype jsError = SyntaxError | TypeError

datatype CellText = TextThrows | TextString string | TextRich "string list"

datatype CellValue = NumberValue string | OtherValue

record Cell =
  c_address :: string
  c_sheetName :: string
  c_text :: CellText
  c_value :: CellValue
  c_formula :: "string option"

type_synonym regexp = "string \<Rightarrow> string \<Rightarrow> nat option"

text \<open>
  \<open>makePrefix\<close> removes the non-word characters and appends \<open>!\<close>. \<open>prefixMatch\<close> is the
  matcher of the regular expression of line 138 (an address not preceded by \<open>!\<close>),
  \<open>wrapMatch\<close> the one of lines 151 and 156 (the sanitized prefix, a text of word
  characters and \<open>!\<close>, followed by an address; the empty prefix for one sheet).
  \<open>sheetLoop\<close> is the loop over the sheet names, lines 141 to 154.
\<close>

definition isWordChar :: "char \<Rightarrow> bool" where
  "isWordChar c = (isUpper c \<or> isLower c \<or> isDigit c \<or> c = CHR ''_'')"

definition makePrefix :: "string \<Rightarrow> string" where
  "makePrefix sheetName = filter isWordChar sheetName @ ''!''"

fun replaceFirstStr :: "string \<Rightarrow> string \<Rightarrow> string \<Rightarrow> string" where
  "replaceFirstStr pat rep [] = (if pat = [] then rep else [])"
| "replaceFirstStr pat rep (c # cs) =
     (if startsWith (c # cs) pat then rep @ drop (length pat) (c # cs)
      else c # replaceFirstStr pat rep cs)"

definition prefixMatch :: "string \<Rightarrow> string \<Rightarrow> string \<Rightarrow> (nat \<times> string) option" where
  "prefixMatch pfx pre s =
     (if startsWith pre ''!'' then None
      else case addrToken isUpper s of
             None \<Rightarrow> None
           | Some (tok, r) \<Rightarrow> Some (length tok, pfx @ tok))"

definition wrapMatch :: "string \<Rightarrow> string \<Rightarrow> string \<Rightarrow> (nat \<times> string) option" where
  "wrapMatch pfx pre s =
     (if \<not> startsWith s pfx then None
      else case addrToken isUpper (drop (length pfx) s) of
             None \<Rightarrow> None
           | Some (tok, r) \<Rightarrow> Some (length pfx + length tok, ''${metric:'' @ pfx @ tok @ ''}''))"

definition quoteSheetName :: "string \<Rightarrow> string" where
  "quoteSheetName sheetName =
     (if CHR '' '' \<in> set sheetName
      then [CHR 0x27] @ replaceFirstStr [CHR 0x27] [CHR 0x27, CHR 0x27] sheetName @ [CHR 0x27]
      else sheetName)"

fun sheetLoop :: "(string \<Rightarrow> regexp option) \<Rightarrow> string list \<Rightarrow> string \<Rightarrow> jsError + string" where
  "sheetLoop mkRe [] fm = Inr fm"
| "sheetLoop mkRe (sheetName0 # rest) fm =
     (let sheetName = quoteSheetName sheetName0;
          newSheetPrefix = makePrefix sheetName
      in case mkRe (sheetName @ ''!'') of
           None \<Rightarrow> Inl SyntaxError
         | Some re \<Rightarrow>
             sheetLoop mkRe rest
               (replaceAllRe (wrapMatch newSheetPrefix)
                  (replaceAllRe (\<lambda>pre s. map_option (\<lambda>n. (n, newSheetPrefix)) (re pre s)) fm)))"

definition cellText :: "Cell \<Rightarrow> string" where
  "cellText cell =
     (let text0 = (case c_text cell of
                     TextThrows \<Rightarrow> []
                   | TextString s \<Rightarrow> s
                   | TextRich parts \<Rightarrow> concat parts);
          text1 = (case c_value cell of NumberValue shown \<Rightarrow> shown | OtherValue \<Rightarrow> text0)
      in trim text1)"

text \<open>Lines 98 to 118: the text of the cell, percentages and decimal commas normalised.\<close>

definition normalizedText :: "(string \<Rightarrow> string) \<Rightarrow> Cell \<Rightarrow> string" where
  "normalizedText pct cell =
     (let text2 = cellText cell;
          text3 = (if isPercentText text2 then pct text2 else text2)
      in if \<not> jsIsNaN (replaceAllStr '','' ''.'' text3) then replaceAllStr '','' ''.'' text3 else text3)"

text \<open>Lines 123 to 131: the formula of the cell after the translator passes.\<close>

definition translatedFormula :: "(string \<Rightarrow> string) \<Rightarrow> Cell \<Rightarrow> string" where
  "translatedFormula pct cell =
     (let formula0 = (case c_formula cell of
                        None \<Rightarrow> []
                      | Some f \<Rightarrow> if f = [] then [] else ''='' @ f);
          formula1 = (if startsWith formula0 ''=HYPERLINK'' then [] else formula0)
      in translate pct (replaceAllStr ''$'' [] formula1))"

definition getCellData ::
  "(string \<Rightarrow> regexp option) \<Rightarrow> (string \<Rightarrow> string) \<Rightarrow> Cell \<Rightarrow> string list \<Rightarrow> int \<Rightarrow> int \<Rightarrow> jsError + CellData" where
  "getCellData mkRe pct cell names rowNum0 colNum0 =
     (let text = normalizedText pct cell;
          description0 = (if jsIsNaN text then text else []);
          value0 = (if jsIsNaN text then [] else text);
          formula2 = translatedFormula pct cell
      in if length names > 1
         then (let pfx = makePrefix (c_sheetName cell)
               in case sheetLoop mkRe names (replaceAllRe (prefixMatch pfx) formula2) of
                    Inl e \<Rightarrow> Inl e
                  | Inr formula3 \<Rightarrow>
                      Inr \<lparr> address = pfx @ c_address cell, cvalue = value0,
                            description = description0, formula = formula3,
                            rowNum = rowNum0, colNum = colNum0 \<rparr>)
         else Inr \<lparr> address = c_address cell, cvalue = value0, description = description0,
                    formula = replaceAllRe (wrapMatch []) formula2,
                    rowNum = rowNum0, colNum = colNum0 \<rparr>)"


section \<open>makeGrid\<close>

text \<open>
  A workbook is the list of its sheets; a sheet has its name and its rows, a row its
  number and its cells with their column numbers, as \<open>eachSheet\<close>, \<open>eachRow\<close> and
  \<open>eachCell\<close> visit them. The state of the iteration is \<open>maxColumn\<close> and \<open>grid.cells\<close>;
  \<open>previousCell\<close> is handed from cell to cell within a row.
\<close>

record Row =
  r_number :: int
  r_cells :: "(int \<times> Cell) list"

record Worksheet =
  w_name :: string
  w_rows :: "Row list"

definition deleteKey :: "string \<Rightarrow> (string \<times> 'a) list \<Rightarrow> (string \<times> 'a) list" where
  "deleteKey k kvs = filter (\<lambda>kv. fst kv \<noteq> k) kvs"

fun setKey :: "string \<Rightarrow> 'a \<Rightarrow> (string \<times> 'a) list \<Rightarrow> (string \<times> 'a) list" where
  "setKey k v [] = [(k, v)]"
| "setKey k v ((k', v') # kvs) = (if k' = k then (k, v) # kvs else (k', v') # setKey k v kvs)"

record GridState =
  maxColumn :: int
  gridCells :: "(string \<times> CellData) list"

definition mergeLabel :: "CellData option \<Rightarrow> CellData \<Rightarrow> bool" where
  "mergeLabel previousCell cellData =
     (case previousCell of
        None \<Rightarrow> False
      | Some p \<Rightarrow> (cvalue cellData \<noteq> [] \<or> formula cellData \<noteq> []) \<and>
                  colNum p = colNum cellData - 1 \<and> formula p = [] \<and>
                  description p \<noteq> [] \<and> cvalue p = [])"

fun eachCell ::
  "(string \<Rightarrow> regexp option) \<Rightarrow> (string \<Rightarrow> string) \<Rightarrow> string list \<Rightarrow> int \<Rightarrow> int \<Rightarrow>
   (int \<times> Cell) list \<Rightarrow> CellData option \<Rightarrow> GridState \<Rightarrow> jsError + GridState" where
  "eachCell mkRe pct names startColumn rowNum0 [] previousCell st = Inr st"
| "eachCell mkRe pct names startColumn rowNum0 ((colNum0, cell) # rest) previousCell st =
     (let colNum1 = colNum0 + startColumn;
          maxColumn1 = max (maxColumn st) colNum1
      in case getCellData mkRe pct cell names rowNum0 colNum1 of
           Inl e \<Rightarrow> Inl e
         | Inr cellData0 \<Rightarrow>
             (let merge = mergeLabel previousCell cellData0;
                  cellData = (if merge then cellData0 \<lparr> description := description (the previousCell) \<rparr>
                              else cellData0);
                  cells1 = (if merge then deleteKey (address (the previousCell)) (gridCells st)
                            else gridCells st)
              in eachCell mkRe pct names startColumn rowNum0 rest (Some cellData)
                   \<lparr> maxColumn = maxColumn1, gridCells = setKey (address cellData) cellData cells1 \<rparr>))"

fun eachRow ::
  "(string \<Rightarrow> regexp option) \<Rightarrow> (string \<Rightarrow> string) \<Rightarrow> string list \<Rightarrow> int \<Rightarrow>
   Row list \<Rightarrow> GridState \<Rightarrow> jsError + GridState" where
  "eachRow mkRe pct names startColumn [] st = Inr st"
| "eachRow mkRe pct names startColumn (row # rest) st =
     (case eachCell mkRe pct names startColumn (r_number row) (r_cells row) None st of
        Inl e \<Rightarrow> Inl e
      | Inr st' \<Rightarrow> eachRow mkRe pct names startColumn rest st')"

fun eachSheet ::
  "(string \<Rightarrow> regexp option) \<Rightarrow> (string \<Rightarrow> string) \<Rightarrow> string list \<Rightarrow>
   Worksheet list \<Rightarrow> GridState \<Rightarrow> jsError + GridState" where
  "eachSheet mkRe pct names [] st = Inr st"
| "eachSheet mkRe pct names (sheet # rest) st =
     (case eachRow mkRe pct names (maxColumn st + 1) (w_rows sheet) st of
        Inl e \<Rightarrow> Inl e
      | Inr st' \<Rightarrow> eachSheet mkRe pct names rest st')"

definition makeGrid ::
  "(string \<Rightarrow> regexp option) \<Rightarrow> (string \<Rightarrow> string) \<Rightarrow> Worksheet list \<Rightarrow> jsError + Grid" where
  "makeGrid mkRe pct workbook =
     (let names = map w_name workbook
      in case eachSheet mkRe pct names workbook \<lparr> maxColumn = 0, gridCells = [] \<rparr> of
           Inl e \<Rightarrow> Inl e
         | Inr st \<Rightarrow> Inr \<lparr> cells = gridCells st, sheetNames = names \<rparr>)"

section \<open>Instances of the runtime parameters, and sample cells\<close>

text \<open>
  \<open>plainRegExp\<close> is the RegExp constructor on plain sources, those in which every
  character stands for itself: the matcher compares the source with the text at the
  position, ignoring letter case. Sources with a regular-expression metacharacter are
  rejected; JavaScript rejects a source with an unclosed \<open>(\<close> in the same way, and no
  theorem below applies the instance to any other non-plain source.
  \<open>percentString\<close> (above) is \<open>parseFloat(s) / 100\<close> printed, in exact decimal arithmetic:
  the decimal point moves two places to the left. The general theorems take both as
  parameters; the instances serve the evaluations at concrete inputs.
\<close>

definition isPlainSource :: "string \<Rightarrow> bool" where
  "isPlainSource src = list_all (\<lambda>c. c \<notin> set (CHR 0x5C # ''^$.*+?()[]{}|'')) src"

definition plainRegExp :: "string \<Rightarrow> regexp option" where
  "plainRegExp src =
     (if isPlainSource src
      then Some (\<lambda>pre s. if startsWithCI s src then Some (length src) else None)
      else None)"

definition numCell :: "string \<Rightarrow> string \<Rightarrow> string \<Rightarrow> Cell" where
  "numCell sheet addr shown =
     \<lparr> c_address = addr, c_sheetName = sheet, c_text = TextString shown,
       c_value = NumberValue shown, c_formula = None \<rparr>"


definition formulaCell :: "string \<Rightarrow> string \<Rightarrow> string \<Rightarrow> string \<Rightarrow> Cell" where
  "formulaCell sheet addr f txt =
     \<lparr> c_address = addr, c_sheetName = sheet, c_text = TextString txt,
       c_value = OtherValue, c_formula = Some f \<rparr>"

section \<open>makeGraph\<close>

datatype GuesstimateType = FUNCTION | POINT

record Guesstimate =
  metric :: string
  input :: unit
  expression :: string
  guesstimateType :: GuesstimateType
  g_description :: string

record Metric =
  m_id :: string
  readableId :: string
  name :: string
  location_row :: int
  location_column :: int

record Graph =
  metrics :: "Metric list"
  guesstimates :: "Guesstimate list"

text \<open>The body of the loop of \<open>makeGraph\<close>: the metric and the guesstimate of one cell.\<close>

definition cellMetric :: "CellData \<Rightarrow> Metric" where
  "cellMetric cell =
     (let name0 = description cell;
          name1 = (if length name0 > 20 \<and> cvalue cell \<noteq> [] then take 17 name0 @ ''...'' else name0)
      in \<lparr> m_id = address cell, readableId = address cell, name = name1,
           location_row = rowNum cell - 1, location_column = colNum cell - 1 \<rparr>)"

definition cellGuesstimate :: "CellData \<Rightarrow> Guesstimate" where
  "cellGuesstimate cell =
     (let guesstimateType0 = (if formula cell \<noteq> [] then FUNCTION else POINT);
          expression0 = (if formula cell \<noteq> [] then formula cell else cvalue cell);
          name0 = description cell;
          description0 = (if length name0 > 20 \<and> cvalue cell \<noteq> [] then name0 else [])
      in \<lparr> metric = address cell, input = (), expression = expression0,
           guesstimateType = guesstimateType0, g_description = description0 \<rparr>)"

definition makeGraph :: "Grid \<Rightarrow> Graph" where
  "makeGraph grid =
     \<lparr> metrics = map (cellMetric \<circ> snd) (cells grid),
       guesstimates = map (cellGuesstimate \<circ> snd) (cells grid) \<rparr>"

section \<open>gridToMermaidGraph\<close>

definition isSafeChar :: "char \<Rightarrow> bool" where
  "isSafeChar c = (c = CHR '' '' \<or> isLower c \<or> isUpper c \<or> isDigit c \<or> c \<in> set '',.-$%'')"

definition nodeText :: "CellData \<Rightarrow> string" where
  "nodeText cell =
     (let description0 = description cell;
          description1 = (if length description0 > 40 then take 37 description0 @ ''...'' else description0)
      in if description1 = [] then []
         else address cell @ ''['' @ map (\<lambda>c. if isSafeChar c then c else CHR ''_'') description1 @ '']'')"

text \<open>
  The inner loop over the matched addresses of one formula cell. The state is the set
  \<open>seen\<close> and the list \<open>lines\<close>. \<open>grid.cells[address]\<close> is a key of the object, so the
  lookup succeeds; reading a missing key would end in a TypeError.
\<close>

fun matchedLoop ::
  "(string \<times> CellData) list \<Rightarrow> CellData \<Rightarrow> string list \<Rightarrow> string set \<times> string list \<Rightarrow>
   jsError + (string set \<times> string list)" where
  "matchedLoop cs cell [] st = Inr st"
| "matchedLoop cs cell (addr # rest) (seen, lines) =
     (case map_of cs addr of
        None \<Rightarrow> Inl TypeError
      | Some target \<Rightarrow>
          (let lines1 = (if addr \<notin> seen then lines @ [nodeText target] else lines);
               lines2 = (if address cell \<notin> seen then lines1 @ [nodeText cell] else lines1)
           in matchedLoop cs cell rest
                (insert (address cell) (insert addr seen),
                 lines2 @ [addr @ '' --> '' @ address cell])))"

fun cellLoop ::
  "(string \<times> CellData) list \<Rightarrow> CellData list \<Rightarrow> string set \<times> string list \<Rightarrow>
   jsError + (string set \<times> string list)" where
  "cellLoop cs [] st = Inr st"
| "cellLoop cs (cell # rest) st =
     (if formula cell = [] then cellLoop cs rest st
      else case matchedLoop cs cell
                  (filter (\<lambda>addr. includesStr (formula cell) (addr @ ''}'')) (map fst cs)) st of
             Inl e \<Rightarrow> Inl e
           | Inr st' \<Rightarrow> cellLoop cs rest st')"

definition mermaidLines :: "Grid \<Rightarrow> jsError + string list" where
  "mermaidLines grid =
     (case cellLoop (cells grid) (map snd (cells grid)) ({}, []) of
        Inl e \<Rightarrow> Inl e
      | Inr (seen, lines) \<Rightarrow> Inr lines)"

definition gridToMermaidGraph :: "Grid \<Rightarrow> jsError + string" where
  "gridToMermaidGraph grid =
     (case mermaidLines grid of
        Inl e \<Rightarrow> Inl e
      | Inr lines \<Rightarrow> Inr (''graph LR'' @ [CHR 0x0A] @ ''  '' @ joinWith [CHR 0x0A] lines))"

section \<open>Notions used in the proofs about the percentage pass\<close>

text \<open>
  \<open>isNumberText\<close> describes the texts that JavaScript prints for a number, as far as the
  proofs need them: \<open>NaN\<close>, \<open>Infinity\<close>, \<open>-Infinity\<close>, or a non-empty text of digits,
  \<open>.\<close>, \<open>e\<close>, \<open>+\<close> and \<open>-\<close> that ends with a digit.
\<close>

definition isNumberText :: "string \<Rightarrow> bool" where
  "isNumberText r =
     (r = ''NaN'' \<or> r = ''Infinity'' \<or> r = ''-Infinity'' \<or>
      (r \<noteq> [] \<and> set r \<subseteq> set ''0123456789.e+-'' \<and> isDigit (last r)))"

text \<open>
  \<open>pctOk M run lp s\<close> reads \<open>s\<close> from left to right, \<open>run\<close> being the digits and dots
  read since the last other character and \<open>lp\<close> telling whether the last character
  read was a percent sign: no percent sign follows another one directly, and every
  percent sign that follows a non-empty run ends an occurrence of a text of \<open>M\<close>.
\<close>

fun pctOk :: "string set \<Rightarrow> string \<Rightarrow> bool \<Rightarrow> string \<Rightarrow> bool" where
  "pctOk M run lp [] = True"
| "pctOk M run lp (c # cs) =
     (if c = CHR ''%'' then \<not> lp \<and> (run = [] \<or> (\<exists>x\<in>M. suffix x (run @ ''%''))) \<and> pctOk M [] True cs
      else if isPercentChar c then pctOk M (run @ [c]) False cs
      else pctOk M [] False cs)"

definition runAfter :: "string \<Rightarrow> string \<Rightarrow> string" where
  "runAfter run r = foldl (\<lambda>acc c. if isPercentChar c then acc @ [c] else []) run r"

section \<open>Auxiliary lemmas\<close>

subsection \<open>The passes on the empty formula\<close>

lemma translate_Nil: "translate pct [] = []"
  by (simp add: translate_def evalPercentage_def inlineSUMPRODUCT_def inlineAverage_def
      inlineSum_def toUpperCase_def canonicalCase_def replacePV_def replaceLN_def replaceAllRe_def lnMatch_def pvMatch_def
      callMatch_def startsWithCI_def)

lemma sheetLoop_Nil:
  assumes "\<forall>name\<in>set names. \<forall>re. mkRe (quoteSheetName name @ ''!'') = Some re \<longrightarrow> re [] [] = None"
    and "sheetLoop mkRe names [] = Inr fm"
  shows "fm = []"
  using assms
proof (induction names)
  case Nil
  then show ?case by simp
next
  case (Cons a names)
  then show ?case
    by (auto simp: Let_def replaceAllRe_def wrapMatch_def makePrefix_def addrToken_def split: option.splits)
qed

lemma hyperlink_formula_empty:
  assumes "c_formula cell = Some f" "startsWith f ''HYPERLINK''"
  shows "translatedFormula pct cell = []"
proof -
  from assms(2) have "f \<noteq> []" by (cases f) auto
  moreover have "startsWith (''='' @ f) ''=HYPERLINK''" using assms(2) by simp
  ultimately show ?thesis using assms(1)
    by (simp add: translatedFormula_def Let_def replaceAllStr_def translate_Nil)
qed

subsection \<open>The passes keep a leading equals sign\<close>




lemma matchScan_all:
  assumes "\<And>t n x. m t = Some (n, x) \<Longrightarrow> P x"
  shows "\<forall>x\<in>set (matchScan m k s). P x"
  using assms by (induction m k s rule: matchScan.induct) (auto split: option.splits)



lemma toUpperChar_eq [simp]:
  "toUpperChar c = CHR ''='' \<longleftrightarrow> c = CHR ''=''"
  "CHR ''='' = toUpperChar c \<longleftrightarrow> c = CHR ''=''"
  "toUpperChar CHR ''='' = CHR ''=''"
  by (auto simp: toUpperChar_def)





















subsection \<open>The address passes keep a formula non-empty\<close>





subsection \<open>Grid assembly: cells whose addresses later steps do not touch\<close>








subsection \<open>Grid assembly: where the entries of the Grid come from\<close>










section \<open>The SUM pass on formulas it cannot resolve\<close>

text \<open>
  C1 (as amended). Let \<open>U\<close> be the formula in upper case with every \<open>SUM\<close> replaced by
  \<open>_SUM\<close>. When the formula contains \<open>SUM\<close>, not every \<open>SUM\<close> is a call on a comma
  list of addresses, and either no \<open>SUM\<close> is a call on one range, or not every \<open>SUM\<close>
  is, or the first such call has a range whose two ends differ in their column letter,
  then the SUM pass returns \<open>U\<close>: no call is expanded and none is renamed to \<open>sum\<close>, but
  the letter case of the formula and the name of the calls do change. The formula is
  free of the micro sign and of y with diaeresis, the two characters below 256 whose
  capitals lie above 255.
\<close>

theorem inlineSum_unresolved:
  assumes "CHR 0xB5 \<notin> set f" and "CHR 0xFF \<notin> set f"
    and "includesStr (toUpperCase f) ''SUM''"
    and "U = replaceAllStr ''SUM'' ''_SUM'' (toUpperCase f)"
    and "length (matchScan commaSumMatch 0 U) \<noteq> length (matchScan (literalMatch ''SUM'') 0 U)"
    and "matchScan rangeSumMatch 0 U = []
         \<or> length (matchScan rangeSumMatch 0 U) \<noteq> length (matchScan (literalMatch ''SUM'') 0 U)
         \<or> (matchScan rangeSumMatch 0 U = sm # sums \<and>
            splitOn CHR '':'' (drop 5 (butlast sm)) = start # endS # others \<and>
            take 1 start \<noteq> take 1 endS)"
  shows "inlineSum f = U"
  using assms(3-) by (auto simp: inlineSum_def Let_def)

theorem inlineSum_unresolved_witness:
  "CHR 0xB5 \<notin> set (''=sum(A1:B2)+'' @ [CHR 0xE9, CHR 0xDF]) \<and>
   CHR 0xFF \<notin> set (''=sum(A1:B2)+'' @ [CHR 0xE9, CHR 0xDF]) \<and>
   includesStr (toUpperCase (''=sum(A1:B2)+'' @ [CHR 0xE9, CHR 0xDF])) ''SUM'' \<and>
   ''=_SUM(A1:B2)+'' @ [CHR 0xC9] @ ''SS''
     = replaceAllStr ''SUM'' ''_SUM'' (toUpperCase (''=sum(A1:B2)+'' @ [CHR 0xE9, CHR 0xDF])) \<and>
   length (matchScan commaSumMatch 0 (''=_SUM(A1:B2)+'' @ [CHR 0xC9] @ ''SS'')) \<noteq>
     length (matchScan (literalMatch ''SUM'') 0 (''=_SUM(A1:B2)+'' @ [CHR 0xC9] @ ''SS'')) \<and>
   matchScan rangeSumMatch 0 (''=_SUM(A1:B2)+'' @ [CHR 0xC9] @ ''SS'') = [''_SUM(A1:B2)''] \<and>
   splitOn CHR '':'' (drop 5 (butlast ''_SUM(A1:B2)'')) = [''A1'', ''B2''] \<and>
   take 1 ''A1'' \<noteq> take 1 ''B2'' \<and>
   inlineSum (''=sum(A1:B2)+'' @ [CHR 0xE9, CHR 0xDF]) = ''=_SUM(A1:B2)+'' @ [CHR 0xC9] @ ''SS''"
proof -
  have h0: "CHR 0xB5 \<notin> set (''=sum(A1:B2)+'' @ [CHR 0xE9, CHR 0xDF])"
    "CHR 0xFF \<notin> set (''=sum(A1:B2)+'' @ [CHR 0xE9, CHR 0xDF])" by code_simp+
  have h1: "includesStr (toUpperCase (''=sum(A1:B2)+'' @ [CHR 0xE9, CHR 0xDF])) ''SUM''"
    by code_simp
  have h2: "''=_SUM(A1:B2)+'' @ [CHR 0xC9] @ ''SS''
     = replaceAllStr ''SUM'' ''_SUM'' (toUpperCase (''=sum(A1:B2)+'' @ [CHR 0xE9, CHR 0xDF]))"
    by code_simp
  have h3: "length (matchScan commaSumMatch 0 (''=_SUM(A1:B2)+'' @ [CHR 0xC9] @ ''SS'')) \<noteq>
     length (matchScan (literalMatch ''SUM'') 0 (''=_SUM(A1:B2)+'' @ [CHR 0xC9] @ ''SS''))"
    by code_simp
  have h4: "matchScan rangeSumMatch 0 (''=_SUM(A1:B2)+'' @ [CHR 0xC9] @ ''SS'')
       = ''_SUM(A1:B2)'' # [] \<and>
     splitOn CHR '':'' (drop 5 (butlast ''_SUM(A1:B2)'')) = ''A1'' # ''B2'' # [] \<and>
     take 1 ''A1'' \<noteq> take 1 ''B2''" by code_simp
  from inlineSum_unresolved[OF h0 h1 h2 h3 disjI2[OF disjI2[OF h4]]] h0 h1 h2 h3 h4
  show ?thesis by blast
qed

section \<open>HYPERLINK formulas\<close>

text \<open>
  C7 (as amended). For every cell whose raw formula text starts with \<open>HYPERLINK\<close>, the
  formula is discarded and the resulting CellData has an empty formula, in a workbook
  with one sheet and in a workbook with several sheets whose sheet-name patterns do not
  match the empty text. A HYPERLINK call elsewhere in the formula is kept.
\<close>

theorem getCellData_hyperlink_start:
  assumes "c_formula cell = Some f" and "startsWith f ''HYPERLINK''"
    and "\<forall>name\<in>set names. \<forall>re. mkRe (quoteSheetName name @ ''!'') = Some re \<longrightarrow> re [] [] = None"
    and "getCellData mkRe pct cell names r c = Inr d"
  shows "formula d = []"
proof (cases "length names > 1")
  case True
  with assms(4) obtain fm where
    fm: "sheetLoop mkRe names (replaceAllRe (prefixMatch (makePrefix (c_sheetName cell))) []) = Inr fm"
    and d: "formula d = fm"
    by (auto simp: getCellData_def Let_def hyperlink_formula_empty[OF assms(1,2)] split: sum.splits)
  have "replaceAllRe (prefixMatch (makePrefix (c_sheetName cell))) [] = []"
    by (simp add: replaceAllRe_def prefixMatch_def addrToken_def)
  with fm sheetLoop_Nil[OF assms(3)] d show ?thesis by simp
next
  case False
  with assms(4) show ?thesis
    by (auto simp: getCellData_def Let_def hyperlink_formula_empty[OF assms(1,2)]
        replaceAllRe_def wrapMatch_def addrToken_def)
qed

theorem getCellData_hyperlink_start_witness:
  "c_formula (formulaCell ''Data'' ''A1'' ''HYPERLINK(B1)'' ''see B1'') = Some ''HYPERLINK(B1)'' \<and>
   startsWith ''HYPERLINK(B1)'' ''HYPERLINK'' \<and>
   getCellData plainRegExp percentString (formulaCell ''Data'' ''A1'' ''HYPERLINK(B1)'' ''see B1'')
     [''MyData'', ''Data''] 1 2
   = Inr \<lparr> address = ''Data!A1'', cvalue = [], description = ''see B1'', formula = [],
           rowNum = 1, colNum = 2 \<rparr>"
proof -
  have h1: "c_formula (formulaCell ''Data'' ''A1'' ''HYPERLINK(B1)'' ''see B1'') = Some ''HYPERLINK(B1)''"
    by (simp add: formulaCell_def)
  have h2: "startsWith ''HYPERLINK(B1)'' ''HYPERLINK''" by simp
  have h3: "\<forall>name\<in>set [''MyData'', ''Data'']. \<forall>re.
      plainRegExp (quoteSheetName name @ ''!'') = Some re \<longrightarrow> re [] [] = None"
    by (auto simp: plainRegExp_def startsWithCI_def canonicalCase_def quoteSheetName_def
        split: if_splits)
  have h4: "getCellData plainRegExp percentString (formulaCell ''Data'' ''A1'' ''HYPERLINK(B1)'' ''see B1'')
     [''MyData'', ''Data''] 1 2
   = Inr \<lparr> address = ''Data!A1'', cvalue = [], description = ''see B1'', formula = [],
           rowNum = 1, colNum = 2 \<rparr>"
    by code_simp
  from getCellData_hyperlink_start[OF h1 h2 h3 h4] h1 h2 h4 show ?thesis by simp
qed

section \<open>Formula cells with a numeric display value\<close>



section \<open>The label merge of makeGrid\<close>



section \<open>Properties of makeGraph\<close>

text \<open>
  C5 (as amended). For the cell at every position of a Grid, the Metric built by
  \<open>makeGraph\<close> is named as follows: when the description is longer than 20 characters
  and the value is non-empty, the name is the first 17 characters of the description
  followed by three dots (20 characters in all) and the Guesstimate's description is the
  full description; in every other case the name is the description verbatim and the
  Guesstimate's description is empty. The name has at most 20 characters whenever the
  description has at most 20 characters or the value is non-empty; a description longer
  than 20 characters on a cell with an empty value is kept whole.
\<close>

theorem makeGraph_name_policy:
  assumes "i < length (cells grid)"
  shows "let cell = snd (cells grid ! i);
             m = metrics (makeGraph grid) ! i;
             g = guesstimates (makeGraph grid) ! i
         in (length (description cell) > 20 \<and> cvalue cell \<noteq> [] \<longrightarrow>
               name m = take 17 (description cell) @ ''...'' \<and> length (name m) = 20 \<and>
               g_description g = description cell)
          \<and> (\<not> (length (description cell) > 20 \<and> cvalue cell \<noteq> []) \<longrightarrow>
               name m = description cell \<and> g_description g = [])
          \<and> (length (description cell) \<le> 20 \<or> cvalue cell \<noteq> [] \<longrightarrow> length (name m) \<le> 20)"
  using assms by (auto simp: makeGraph_def cellMetric_def cellGuesstimate_def Let_def)

theorem makeGraph_name_policy_witness:
  "let grid = \<lparr> cells = [(''B1'', \<lparr> address = ''B1'', cvalue = ''100'',
                   description = ''Total yearly revenue of the shop'', formula = [],
                   rowNum = 1, colNum = 3 \<rparr>)], sheetNames = [''Sheet1''] \<rparr>
   in 0 < length (cells grid) \<and>
      name (metrics (makeGraph grid) ! 0) = ''Total yearly reve...'' \<and>
      g_description (guesstimates (makeGraph grid) ! 0) = ''Total yearly revenue of the shop''"
  using makeGraph_name_policy [of 0 "\<lparr> cells = [(''B1'', \<lparr> address = ''B1'', cvalue = ''100'',
                   description = ''Total yearly revenue of the shop'', formula = [],
                   rowNum = 1, colNum = 3 \<rparr>)], sheetNames = [''Sheet1''] \<rparr>"]
  by (simp add: Let_def)

text \<open>
  C5 (as stated) fails: a bare label cell (empty value) with a 21-character description
  keeps its whole description as the Metric's name, which is then longer than 20.
\<close>

theorem makeGraph_name_cap_counterexample:
  "\<not> length (name (metrics (makeGraph
       \<lparr> cells = [(''A1'', \<lparr> address = ''A1'', cvalue = [],
                   description = ''Revenue of last year!'', formula = [],
                   rowNum = 1, colNum = 2 \<rparr>)], sheetNames = [''Sheet1''] \<rparr>) ! 0)) \<le> 20"
  by (simp add: makeGraph_def cellMetric_def)


section \<open>The translator run twice\<close>

subsection \<open>A pass that finds no match returns its input\<close>

lemma matchScan_none:
  assumes "\<And>i. m (drop i s) = None"
  shows "matchScan m k s = []"
  using assms
proof (induction s arbitrary: k)
  case Nil
  then show ?case by simp
next
  case (Cons c cs)
  have tl: "m (drop i cs) = None" for i using Cons.prems[of "Suc i"] by simp
  have hd: "m (c # cs) = None" using Cons.prems[of 0] by simp
  show ?case using Cons.IH[OF tl] hd by (cases k) auto
qed

lemma replaceScan_no_match:
  assumes "\<And>pre t. m pre t = m [] t" and "m [] [] = None" and "matchScan (m []) 0 s = []"
  shows "replaceScan m 0 pre s = s"
  using assms(3)
proof (induction s arbitrary: pre)
  case Nil
  have "m pre [] = None" using assms(1)[of pre "[]"] assms(2) by simp
  then show ?case by simp
next
  case (Cons c cs)
  from Cons.prems have hd: "m [] (c # cs) = None" and tl: "matchScan (m []) 0 cs = []"
    by (auto split: option.splits)
  have "m pre (c # cs) = None" using assms(1)[of pre "c # cs"] hd by simp
  with Cons.IH[OF tl] show ?case by simp
qed

lemma inlineSum_no_match: "\<not> includesStr (toUpperCase g) ''SUM'' \<Longrightarrow> inlineSum g = g"
  by (simp add: inlineSum_def)

lemma inlineSUMPRODUCT_no_match: "matchScan sumproductMatch 0 g = [] \<Longrightarrow> inlineSUMPRODUCT g = g"
  by (simp add: inlineSUMPRODUCT_def)

lemma inlineAverage_no_match: "matchScan (callMatch ''AVERAGE'') 0 g = [] \<Longrightarrow> inlineAverage g = g"
  by (simp add: inlineAverage_def)

lemma replaceLN_no_match:
  assumes "matchScan (lnMatch []) 0 g = []"
  shows "replaceLN g = g"
  unfolding replaceLN_def replaceAllRe_def
  by (rule replaceScan_no_match[where m = lnMatch, OF _ _ assms])
    (simp_all add: lnMatch_def callMatch_def startsWithCI_def canonicalCase_def)

lemma replacePV_no_match:
  assumes "matchScan (pvMatch []) 0 g = []"
  shows "replacePV g = g"
  unfolding replacePV_def replaceAllRe_def
  by (rule replaceScan_no_match[where m = pvMatch, OF _ _ assms])
    (simp_all add: pvMatch_def startsWithCI_def canonicalCase_def)

lemma translate_no_match:
  assumes "evalPercentage pct f = g"
    and "matchScan sumproductMatch 0 g = []" and "matchScan (callMatch ''AVERAGE'') 0 g = []"
    and "\<not> includesStr (toUpperCase g) ''SUM''"
    and "matchScan (lnMatch []) 0 g = []" and "matchScan (pvMatch []) 0 g = []"
  shows "translate pct f = g"
  using assms
  by (simp add: translate_def inlineSum_no_match inlineSUMPRODUCT_no_match inlineAverage_no_match
      replaceLN_no_match replacePV_no_match)

subsection \<open>One replacement of a percentage keeps the invariant\<close>

lemma percent_not_percentChar [simp]: "\<not> isPercentChar CHR ''%''"
  by (simp add: isPercentChar_def isDigit_def)

lemma pctOk_run:
  assumes "list_all isPercentChar u" "u \<noteq> []"
  shows "pctOk M run lp (u @ t) = pctOk M (run @ u) False t"
  using assms
proof (induction u arbitrary: run lp)
  case Nil
  then show ?case by simp
next
  case (Cons c u)
  then have c: "isPercentChar c" "c \<noteq> CHR ''%''" by auto
  show ?case
  proof (cases "u = []")
    case True
    with c show ?thesis by simp
  next
    case False
    with Cons c show ?thesis by simp
  qed
qed

lemma pctOk_text:
  assumes "CHR ''%'' \<notin> set r" "r \<noteq> []"
  shows "pctOk M run lp (r @ t) = pctOk M (runAfter run r) False t"
  using assms
proof (induction r arbitrary: run lp)
  case Nil
  then show ?case by simp
next
  case (Cons c r)
  then have c: "c \<noteq> CHR ''%''" by auto
  show ?case
  proof (cases "r = []")
    case True
    with c show ?thesis by (simp add: runAfter_def)
  next
    case False
    with Cons c show ?thesis by (simp add: runAfter_def)
  qed
qed

lemma startsWith_iff: "startsWith s p \<longleftrightarrow> (\<exists>t. s = p @ t)"
proof (induction s p rule: startsWith.induct)
  case (1 s)
  then show ?case by simp
next
  case (2 p ps)
  then show ?case by simp
next
  case (3 c cs p ps)
  then show ?case by auto
qed

lemma replaceStrScan_skip: "replaceStrScan p r (length a) (a @ t) = replaceStrScan p r 0 t"
  by (induction a) auto

lemma replaceStrScan_match:
  assumes "p \<noteq> []"
  shows "replaceStrScan p r 0 (p @ t) = r @ replaceStrScan p r 0 t"
proof -
  from assms obtain c cs where p: "p = c # cs" by (cases p) auto
  have "startsWith (p @ t) p" by (simp add: startsWith_iff)
  then have "replaceStrScan p r 0 (p @ t) = r @ replaceStrScan p r (length cs) (cs @ t)"
    using p by simp
  then show ?thesis by (simp add: replaceStrScan_skip)
qed

lemma pctOk_step:
  assumes m: "m = u @ ''%''" "u \<noteq> []" "list_all isPercentChar u"
    and r: "r \<noteq> []" "CHR ''%'' \<notin> set r"
  shows "pctOk (insert m M) run lp t \<Longrightarrow> suffix run run' \<Longrightarrow> (lp' \<longrightarrow> lp) \<Longrightarrow>
         (run = [] \<and> run' \<noteq> [] \<longrightarrow> lp) \<Longrightarrow>
         (\<forall>v. suffix v run \<and> v \<noteq> [] \<longrightarrow> \<not> startsWith (v @ t) m) \<Longrightarrow>
         pctOk M run' lp' (replaceStrScan m r 0 t)"
proof (induction t arbitrary: run lp run' lp' rule: length_induct)
  case (1 t)
  note IH = 1(1)[rule_format] and inp = 1(2) and suf = 1(3) and lps = 1(4) and emp = 1(5) and noocc = 1(6)
  show ?case
  proof (cases "startsWith t m")
    case True
    then obtain t' where t: "t = m @ t'" by (auto simp: startsWith_iff)
    have "m \<noteq> []" using m by simp
    then have out: "replaceStrScan m r 0 t = r @ replaceStrScan m r 0 t'"
      unfolding t by (rule replaceStrScan_match)
    have "pctOk (insert m M) run lp (u @ CHR ''%'' # t')" using inp t m by simp
    then have "pctOk (insert m M) (run @ u) False (CHR ''%'' # t')"
      using pctOk_run[OF m(3,2)] by simp
    then have inp': "pctOk (insert m M) [] True t'" by simp
    have "pctOk M (runAfter run' r) False (replaceStrScan m r 0 t')"
      by (rule IH[OF _ inp']) (use t m in auto)
    then show ?thesis using out pctOk_text[OF r(2,1)] by simp
  next
    case False
    show ?thesis
    proof (cases t)
      case Nil
      then show ?thesis by simp
    next
      case (Cons c cs)
      have out: "replaceStrScan m r 0 t = c # replaceStrScan m r 0 cs"
        using False Cons by simp
      consider (pct) "c = CHR ''%''" | (dig) "c \<noteq> CHR ''%''" "isPercentChar c"
        | (oth) "c \<noteq> CHR ''%''" "\<not> isPercentChar c" by blast
      then show ?thesis
      proof cases
        case pct
        from inp Cons pct have nlp: "\<not> lp"
          and ctx: "run = [] \<or> (\<exists>x\<in>insert m M. suffix x (run @ ''%''))"
          and inp': "pctOk (insert m M) [] True cs" by auto
        have rest: "pctOk M [] True (replaceStrScan m r 0 cs)"
          by (rule IH[OF _ inp']) (use Cons in auto)
        have ctx': "run' = [] \<or> (\<exists>x\<in>M. suffix x (run' @ ''%''))"
        proof (cases "run' = []")
          case True
          then show ?thesis by simp
        next
          case False
          with emp nlp have "run \<noteq> []" by auto
          with ctx obtain x where x: "x \<in> insert m M" "suffix x (run @ ''%'')" by auto
          have "x \<noteq> m"
          proof
            assume "x = m"
            with x m have "suffix (u @ ''%'') (run @ ''%'')" by simp
            then have "suffix u run" by simp
            with noocc m(2) have "\<not> startsWith (u @ t) m" by blast
            moreover have "startsWith (u @ t) m" using Cons pct m by (simp add: startsWith_iff)
            ultimately show False by simp
          qed
          with x have "x \<in> M" by simp
          moreover from suf have "suffix (run @ ''%'') (run' @ ''%'')" by simp
          with x(2) have "suffix x (run' @ ''%'')" using suffix_order.trans by blast
          ultimately show ?thesis by blast
        qed
        from nlp lps have "\<not> lp'" by simp
        with ctx' rest out pct show ?thesis by simp
      next
        case dig
        from inp Cons dig have inp': "pctOk (insert m M) (run @ [c]) False cs" by simp
        have no: "\<not> startsWith (v @ cs) m" if v: "suffix v (run @ [c]) \<and> v \<noteq> []" for v
        proof -
          from v obtain v0 where v0: "v = v0 @ [c]" "suffix v0 run"
            by (metis append_butlast_last_id last_snoc snoc_suffix_snoc suffix_bot.extremum_uniqueI suffix_snoc)
          show ?thesis
          proof (cases "v0 = []")
            case True
            with v0 False Cons show ?thesis by simp
          next
            case False
            with noocc v0 Cons show ?thesis by simp
          qed
        qed
        have "pctOk M (run' @ [c]) False (replaceStrScan m r 0 cs)"
          by (rule IH[OF _ inp' _ _ _ no]) (use Cons suf in auto)
        with out dig show ?thesis by simp
      next
        case oth
        from inp Cons oth have inp': "pctOk (insert m M) [] False cs" by simp
        have "pctOk M [] False (replaceStrScan m r 0 cs)"
          by (rule IH[OF _ inp']) (use Cons in auto)
        with out oth show ?thesis by simp
      qed
    qed
  qed
qed

subsection \<open>The invariant holds at the start and settles the percentage pass\<close>

lemma matchScan_skip: "matchScan m (length a) (a @ t) = matchScan m 0 t"
  by (induction a) auto

lemma includesStr_iff: "includesStr s p \<longleftrightarrow> (\<exists>a b. s = a @ p @ b)"
proof (induction s)
  case Nil
  then show ?case by auto
next
  case (Cons c cs)
  show ?case
  proof
    assume "includesStr (c # cs) p"
    then consider "startsWith (c # cs) p" | "includesStr cs p" by auto
    then show "\<exists>a b. c # cs = a @ p @ b"
    proof cases
      case 1
      then obtain t where "c # cs = p @ t" by (auto simp: startsWith_iff)
      then have "c # cs = [] @ p @ t" by simp
      then show ?thesis by blast
    next
      case 2
      with Cons obtain a b where "cs = a @ p @ b" by auto
      then have "c # cs = (c # a) @ p @ b" by simp
      then show ?thesis by blast
    qed
  next
    assume "\<exists>a b. c # cs = a @ p @ b"
    then obtain a b where ab: "c # cs = a @ p @ b" by auto
    show "includesStr (c # cs) p"
    proof (cases a)
      case Nil
      with ab have "startsWith (c # cs) p" by (auto simp: startsWith_iff)
      then show ?thesis by simp
    next
      case (Cons d ds)
      with ab have "cs = ds @ p @ b" by simp
      with Cons.IH show ?thesis by auto
    qed
  qed
qed

lemma percentMatch_Some:
  assumes "percentMatch s = Some (n, m0, m1)"
  shows "m1 = takeWhile isPercentChar s \<and> m1 \<noteq> [] \<and> list_all isPercentChar m1 \<and> m0 = m1 @ ''%'' \<and>
     n = length m1 + 1 \<and> (\<exists>t. s = m1 @ CHR ''%'' # t)"
proof -
  define u where "u = takeWhile isPercentChar s"
  from assms have u: "m1 = u" "u \<noteq> []" "m0 = u @ ''%''" "n = length u + 1"
    and st: "startsWith (drop (length u) s) ''%''"
    by (auto simp: percentMatch_def Let_def u_def split: if_splits)
  from st obtain t where "drop (length u) s = CHR ''%'' # t" by (auto simp: startsWith_iff)
  moreover have "s = u @ drop (length u) s"
    unfolding u_def by (metis takeWhile_dropWhile_id takeWhile_eq_take append_take_drop_id)
  ultimately have "s = u @ CHR ''%'' # t" by simp
  then have e: "\<exists>t. s = u @ CHR ''%'' # t" by blast
  have "list_all isPercentChar u"
    unfolding u_def by (simp add: list_all_iff) (meson set_takeWhileD)
  with u e show ?thesis by (simp add: u_def)
qed

lemma percentMatch_run:
  assumes "list_all isPercentChar u" "u \<noteq> []"
  shows "percentMatch (u @ CHR ''%'' # t) = Some (length u + 1, u @ ''%'', u)"
proof -
  have "takeWhile isPercentChar (u @ CHR ''%'' # t) = u"
    using assms(1) by (induction u) auto
  then show ?thesis using assms(2) by (simp add: percentMatch_def)
qed

lemma percentMatch_none_head: "\<not> isPercentChar c \<Longrightarrow> percentMatch (c # t) = None"
  by (simp add: percentMatch_def)

lemma percentMatch_none_run:
  assumes "list_all isPercentChar u" "\<not> startsWith t ''%''" "t = [] \<or> \<not> isPercentChar (hd t)"
  shows "percentMatch (u @ t) = None"
proof -
  have "takeWhile isPercentChar (u @ t) = u"
    using assms(1,3) by (induction u) (auto simp: takeWhile_eq_Nil_iff)
  then show ?thesis using assms(2) by (simp add: percentMatch_def)
qed

lemma matchScan_none_run:
  assumes "list_all isPercentChar u" "\<not> startsWith t ''%''" "t = [] \<or> \<not> isPercentChar (hd t)"
  shows "matchScan percentMatch 0 (u @ t) = matchScan percentMatch 0 t"
  using assms
proof (induction u)
  case Nil
  then show ?case by simp
next
  case (Cons c u)
  have "percentMatch ((c # u) @ t) = None"
    by (rule percentMatch_none_run) (use Cons.prems in auto)
  with Cons show ?case by simp
qed

lemma pctOk_initial:
  "(lp \<longrightarrow> \<not> startsWith t ''%'') \<Longrightarrow> \<not> includesStr t ''%%'' \<Longrightarrow>
   pctOk (M \<union> fst ` set (matchScan percentMatch 0 t)) [] lp t"
proof (induction t arbitrary: lp M rule: length_induct)
  case (1 t)
  note IH = 1(1)[rule_format] and lp = 1(2) and nodbl = 1(3)
  show ?case
  proof (cases t)
    case Nil
    then show ?thesis by simp
  next
    case (Cons c cs)
    define u where "u = takeWhile isPercentChar t"
    define rest where "rest = dropWhile isPercentChar t"
    have split: "t = u @ rest" by (simp add: u_def rest_def)
    have u: "list_all isPercentChar u"
      unfolding u_def by (simp add: list_all_iff) (meson set_takeWhileD)
    have rest_hd: "rest = [] \<or> \<not> isPercentChar (hd rest)"
      unfolding rest_def by (metis hd_dropWhile)
    show ?thesis
    proof (cases "u = []")
      case True
      then have c: "\<not> isPercentChar c" using Cons by (auto simp: u_def takeWhile_eq_Nil_iff)
      have ms: "matchScan percentMatch 0 t = matchScan percentMatch 0 cs"
        using Cons c by (simp add: percentMatch_none_head)
      have nodbl': "\<not> includesStr cs ''%%''" using nodbl Cons by simp
      show ?thesis
      proof (cases "c = CHR ''%''")
        case True
        have "\<not> startsWith cs ''%''"
        proof
          assume "startsWith cs ''%''"
          then obtain t' where "cs = CHR ''%'' # t'" by (auto simp: startsWith_iff)
          with Cons True have "startsWith t ''%%''" by simp
          with nodbl Cons show False by simp
        qed
        then have "pctOk (M \<union> fst ` set (matchScan percentMatch 0 cs)) [] True cs"
          by (intro IH) (use Cons nodbl' in auto)
        with lp Cons True ms show ?thesis by simp
      next
        case False
        have "pctOk (M \<union> fst ` set (matchScan percentMatch 0 cs)) [] False cs"
          by (intro IH) (use Cons nodbl' in auto)
        with Cons False c ms show ?thesis by simp
      qed
    next
      case False
      show ?thesis
      proof (cases "startsWith rest ''%''")
        case True
        then obtain t' where rest: "rest = CHR ''%'' # t'" by (auto simp: startsWith_iff)
        with split have t: "t = u @ CHR ''%'' # t'" by simp
        have pm: "percentMatch t = Some (length u + 1, u @ ''%'', u)"
          unfolding t by (rule percentMatch_run[OF u False])
        obtain d ds where uds: "u = d # ds" using False by (cases u) auto
        have cs: "cs = ds @ CHR ''%'' # t'" using t uds Cons by simp
        have "matchScan percentMatch 0 t = (u @ ''%'', u) # matchScan percentMatch (length u) cs"
          using Cons pm by simp
        also have "length u = length (ds @ ''%'')" using uds by simp
        also have "matchScan percentMatch (length (ds @ ''%'')) cs = matchScan percentMatch 0 t'"
          using matchScan_skip[of percentMatch "ds @ ''%''" t'] cs by simp
        finally have ms: "matchScan percentMatch 0 t = (u @ ''%'', u) # matchScan percentMatch 0 t'" .
        have nodbl': "\<not> includesStr t' ''%%''"
        proof
          assume "includesStr t' ''%%''"
          then obtain a b where "t' = a @ ''%%'' @ b" by (auto simp: includesStr_iff)
          with t have "t = (u @ CHR ''%'' # a) @ ''%%'' @ b" by simp
          with nodbl show False unfolding includesStr_iff by blast
        qed
        have nst: "\<not> startsWith t' ''%''"
        proof
          assume "startsWith t' ''%''"
          then obtain t'' where "t' = CHR ''%'' # t''" by (auto simp: startsWith_iff)
          with t have "t = u @ ''%%'' @ t''" by simp
          with nodbl show False unfolding includesStr_iff by blast
        qed
        have len: "length t' < length t" unfolding t by simp
        let ?M' = "M \<union> fst ` set (matchScan percentMatch 0 t)"
        have "pctOk (insert (u @ ''%'') M \<union> fst ` set (matchScan percentMatch 0 t')) [] True t'"
          by (rule IH[OF len]) (use nst nodbl' in auto)
        then have r: "pctOk ?M' [] True t'" using ms by simp
        have "u @ ''%'' \<in> ?M'" using ms by simp
        then have "pctOk ?M' ([] @ u) False (CHR ''%'' # t')" using r False by auto
        then have "pctOk ?M' [] lp (u @ CHR ''%'' # t')" using pctOk_run[OF u False] by simp
        with t show ?thesis by simp
      next
        case nostart: False
        have ms: "matchScan percentMatch 0 t = matchScan percentMatch 0 rest"
          unfolding split by (rule matchScan_none_run[OF u nostart rest_hd])
        let ?M' = "M \<union> fst ` set (matchScan percentMatch 0 t)"
        have "pctOk ?M' ([] @ u) False rest"
        proof (cases rest)
          case Nil
          then show ?thesis by simp
        next
          case (Cons d rest')
          with nostart rest_hd have d: "d \<noteq> CHR ''%''" "\<not> isPercentChar d" by auto
          have ms': "matchScan percentMatch 0 rest = matchScan percentMatch 0 rest'"
            using Cons d by (simp add: percentMatch_none_head)
          have len: "length rest' < length t" unfolding split Cons by simp
          have nodbl': "\<not> includesStr rest' ''%%''"
          proof
            assume "includesStr rest' ''%%''"
            then obtain a b where "rest' = a @ ''%%'' @ b" by (auto simp: includesStr_iff)
            with split Cons have "t = (u @ d # a) @ ''%%'' @ b" by simp
            with nodbl show False unfolding includesStr_iff by blast
          qed
          have "pctOk (M \<union> fst ` set (matchScan percentMatch 0 rest')) [] False rest'"
            by (rule IH[OF len]) (use nodbl' in auto)
          with ms ms' Cons d show ?thesis by simp
        qed
        then have "pctOk ?M' [] lp (u @ rest)" using pctOk_run[OF u False] by simp
        then show ?thesis using split by simp
      qed
    qed
  qed
qed

lemma isNumberText_basic: "isNumberText r \<Longrightarrow> r \<noteq> [] \<and> CHR ''%'' \<notin> set r"
  by (auto simp: isNumberText_def)

lemma pctOk_drop: "pctOk M run lp t \<Longrightarrow> \<exists>run' lp'. pctOk M run' lp' (drop i t)"
proof (induction t arbitrary: i run lp)
  case Nil
  then show ?case by simp
next
  case (Cons c cs)
  show ?case
  proof (cases i)
    case 0
    with Cons.prems show ?thesis by auto
  next
    case (Suc j)
    from Cons.prems obtain run1 lp1 where "pctOk M run1 lp1 cs"
      by (auto split: if_splits)
    from Cons.IH[OF this, of j] Suc show ?thesis by simp
  qed
qed

lemma pctOk_no_match:
  assumes "pctOk {} run lp s"
  shows "percentMatch s = None"
proof (cases "percentMatch s")
  case None
  then show ?thesis .
next
  case (Some a)
  obtain n m0 m1 where "a = (n, m0, m1)" by (cases a)
  with Some have pm: "percentMatch s = Some (n, m0, m1)" by simp
  from percentMatch_Some[OF pm] obtain t where
    m1: "m1 \<noteq> []" "list_all isPercentChar m1" and s: "s = m1 @ CHR ''%'' # t" by blast
  from assms have "pctOk {} run lp (m1 @ CHR ''%'' # t)" unfolding s .
  then have "pctOk {} (run @ m1) False (CHR ''%'' # t)" unfolding pctOk_run[OF m1(2,1)] .
  then have "run @ m1 = []" by simp
  with m1(1) have False by simp
  then show ?thesis ..
qed

lemma pctOk_matchScan_empty:
  assumes "pctOk {} run lp s"
  shows "matchScan percentMatch 0 s = []"
proof (rule matchScan_none)
  fix i
  from pctOk_drop[OF assms, of i] obtain run' lp' where "pctOk {} run' lp' (drop i s)" by blast
  then show "percentMatch (drop i s) = None" by (rule pctOk_no_match)
qed

lemma fold_pctOk:
  assumes "\<forall>x\<in>set ms. \<exists>u. fst x = u @ ''%'' \<and> u \<noteq> [] \<and> list_all isPercentChar u"
    and "\<forall>s. isNumberText (pct s)"
    and "pctOk (fst ` set ms) [] False s"
  shows "pctOk {} [] False (foldl (\<lambda>f (m0, m1). replaceAllStr m0 (pct m1) f) s ms)"
  using assms
proof (induction ms arbitrary: s)
  case Nil
  then show ?case by simp
next
  case (Cons x ms)
  obtain m0 m1 where x: "x = (m0, m1)" by (cases x)
  from Cons.prems(1) x obtain u where u: "m0 = u @ ''%''" "u \<noteq> []" "list_all isPercentChar u"
    by auto
  from Cons.prems(2) isNumberText_basic have r: "pct m1 \<noteq> []" "CHR ''%'' \<notin> set (pct m1)"
    by blast+
  from Cons.prems(3) x have inp: "pctOk (insert m0 (fst ` set ms)) [] False s" by simp
  have "pctOk (fst ` set ms) [] False (replaceStrScan m0 (pct m1) 0 s)"
    by (rule pctOk_step[OF u r inp]) auto
  moreover have "replaceAllStr m0 (pct m1) s = replaceStrScan m0 (pct m1) 0 s"
    using u by (simp add: replaceAllStr_def)
  ultimately have "pctOk (fst ` set ms) [] False (replaceAllStr m0 (pct m1) s)" by simp
  from Cons.IH[OF _ Cons.prems(2) this] Cons.prems(1) x show ?case by simp
qed

lemma evalPercentage_settled:
  assumes "\<forall>s. isNumberText (pct s)" "\<not> includesStr f ''%%''"
  shows "matchScan percentMatch 0 (evalPercentage pct f) = []"
proof -
  let ?ms = "matchScan percentMatch 0 f"
  have shape: "\<forall>x\<in>set ?ms. \<exists>u. fst x = u @ ''%'' \<and> u \<noteq> [] \<and> list_all isPercentChar u"
    by (rule matchScan_all) (use percentMatch_Some in fastforce)
  have "pctOk ({} \<union> fst ` set ?ms) [] False f"
    by (rule pctOk_initial) (use assms(2) in auto)
  then have "pctOk (fst ` set ?ms) [] False f" by simp
  from fold_pctOk[OF shape assms(1) this]
  have "pctOk {} [] False (evalPercentage pct f)" by (simp add: evalPercentage_def)
  then show ?thesis by (rule pctOk_matchScan_empty)
qed

lemma evalPercentage_idem:
  assumes "\<forall>s. isNumberText (pct s)" "\<not> includesStr f ''%%''"
  shows "evalPercentage pct (evalPercentage pct f) = evalPercentage pct f"
  using evalPercentage_settled[OF assms] by (simp add: evalPercentage_def)

subsection \<open>The exact decimal instance prints numbers\<close>

lemma digit_in_number_chars: "isDigit c \<Longrightarrow> c \<in> set ''0123456789.e+-''"
proof -
  have "set ''0123456789'' \<subseteq> set ''0123456789.e+-''" by code_simp
  then show "isDigit c \<Longrightarrow> c \<in> set ''0123456789.e+-''" unfolding isDigit_def by blast
qed

lemma decimal_text:
  assumes "list_all isDigit a" "a \<noteq> []" "list_all isDigit b"
  shows "isNumberText (a @ (if b = [] then [] else CHR ''.'' # b))"
    and "isNumberText (CHR ''-'' # a @ (if b = [] then [] else CHR ''.'' # b))"
proof -
  let ?body = "a @ (if b = [] then [] else CHR ''.'' # b)"
  have dot: "CHR ''.'' \<in> set ''0123456789.e+-''" and minus: "CHR ''-'' \<in> set ''0123456789.e+-''"
    by code_simp+
  have chars: "set ?body \<subseteq> set ''0123456789.e+-''"
  proof
    fix c assume "c \<in> set ?body"
    then consider "c \<in> set a" | "c \<in> set b" | "c = CHR ''.''" by (auto split: if_splits)
    then show "c \<in> set ''0123456789.e+-''"
    proof cases
      case 1
      with assms(1) have "isDigit c" unfolding list_all_iff by blast
      then show ?thesis by (rule digit_in_number_chars)
    next
      case 2
      with assms(3) have "isDigit c" unfolding list_all_iff by blast
      then show ?thesis by (rule digit_in_number_chars)
    next
      case 3
      show ?thesis unfolding 3 by (rule dot)
    qed
  qed
  have ne: "?body \<noteq> []" using assms(2) by simp
  have lastd: "isDigit (last ?body)"
  proof (cases "b = []")
    case True
    then have "last ?body = last a" by simp
    moreover have "last a \<in> set a" using assms(2) by simp
    ultimately show ?thesis using assms(1) by (simp add: list_all_iff)
  next
    case False
    then have "last ?body = last b" by simp
    moreover have "last b \<in> set b" using False by simp
    ultimately show ?thesis using assms(3) by (simp add: list_all_iff)
  qed
  from ne chars lastd show "isNumberText ?body" unfolding isNumberText_def by blast
  have "set (CHR ''-'' # ?body) \<subseteq> set ''0123456789.e+-''" using chars minus by auto
  moreover have "last (CHR ''-'' # ?body) = last ?body" using ne by (rule last_ConsR)
  ultimately show "isNumberText (CHR ''-'' # ?body)"
    using lastd unfolding isNumberText_def by (metis list.distinct(1))
qed

lemma percentString_number: "isNumberText (percentString s)"
proof -
  define t where "t = dropWhile isWhiteSpace s"
  define neg where "neg = startsWith t ''-''"
  define u where "u = (if neg \<or> startsWith t ''+'' then drop 1 t else t)"
  define ip where "ip = takeWhile isDigit u"
  define r where "r = drop (length ip) u"
  define fp where "fp = (if startsWith r ''.'' then takeWhile isDigit (drop 1 r) else [])"
  define ip' where "ip' = replicate (2 - length ip) CHR ''0'' @ ip"
  define newInt where "newInt = dropWhile (\<lambda>c. c = CHR ''0'') (take (length ip' - 2) ip')"
  define newFrac where "newFrac = rev (dropWhile (\<lambda>c. c = CHR ''0'') (rev (drop (length ip' - 2) ip' @ fp)))"
  define a where "a = (if newInt = [] then ''0'' else newInt)"
  define body where "body = a @ (if newFrac = [] then [] else CHR ''.'' # newFrac)"
  have ps: "percentString s =
      (if ip = [] \<and> fp = [] then ''NaN'' else if neg \<and> body \<noteq> ''0'' then CHR ''-'' # body else body)"
    unfolding percentString_def Let_def t_def neg_def u_def ip_def r_def fp_def ip'_def newInt_def
      newFrac_def a_def body_def by simp
  have zero: "isDigit CHR ''0''" by (simp add: isDigit_def)
  have dip: "list_all isDigit ip" unfolding ip_def by (simp add: list_all_iff) (meson set_takeWhileD)
  have dfp: "list_all isDigit fp" unfolding fp_def by (simp add: list_all_iff) (meson set_takeWhileD)
  have dip': "list_all isDigit ip'" unfolding ip'_def using dip zero by (auto simp: list_all_iff)
  have "set newInt \<subseteq> set ip'" unfolding newInt_def
    by (meson set_dropWhileD set_take_subset subset_code(1))
  with dip' have dni: "list_all isDigit newInt" by (auto simp: list_all_iff)
  have "set newFrac \<subseteq> set ip' \<union> set fp" unfolding newFrac_def
    by (auto dest!: set_dropWhileD in_set_dropD)
  with dip' dfp have dnf: "list_all isDigit newFrac" by (auto simp: list_all_iff)
  have da: "list_all isDigit a" "a \<noteq> []" unfolding a_def using dni zero by auto
  from decimal_text[OF da dnf] have "isNumberText body" "isNumberText (CHR ''-'' # body)"
    unfolding body_def by simp_all
  moreover have "isNumberText ''NaN''" by (simp add: isNumberText_def)
  ultimately show ?thesis unfolding ps by simp
qed

text \<open>
  C3 (as amended). Let \<open>pct\<close>, the printing of \<open>parseFloat(s) / 100\<close>, give number texts.
  For every formula \<open>f\<close> without two percent signs in a row, let \<open>g\<close> be \<open>f\<close> with its
  percentage literals evaluated. When \<open>g\<close> contains no recognized function pattern (no
  match of the SUMPRODUCT, AVERAGE, LN or PV pattern and no \<open>SUM\<close> in its upper-case
  form), the translation of \<open>f\<close> is \<open>g\<close>, and it is a fixed point of the translator:
  \<open>translate (translate f) = translate f\<close>; in particular the percentage pass leaves its
  own output unchanged on a second run. The matchers of LN and PV do not look at the
  text before the position, which is why they are given the empty text for it. The
  micro sign and y with diaeresis do not touch the test for \<open>SUM\<close>: their capitals, like
  the characters themselves, are none of S, U and M.
\<close>

theorem translate_idempotent:
  assumes "\<forall>s. isNumberText (pct s)"
    and "\<not> includesStr f ''%%''"
    and "g = evalPercentage pct f"
    and "matchScan sumproductMatch 0 g = []"
    and "matchScan (callMatch ''AVERAGE'') 0 g = []"
    and "\<not> includesStr (toUpperCase g) ''SUM''"
    and "matchScan (lnMatch []) 0 g = []"
    and "matchScan (pvMatch []) 0 g = []"
  shows "translate pct f = g \<and> translate pct (translate pct f) = translate pct f"
proof -
  have t1: "translate pct f = g"
    by (rule translate_no_match[OF assms(3)[symmetric] assms(4,5,6,7,8)])
  have "evalPercentage pct g = g"
    unfolding assms(3) by (rule evalPercentage_idem[OF assms(1,2)])
  then have "translate pct g = g" by (rule translate_no_match[OF _ assms(4,5,6,7,8)])
  with t1 show ?thesis by simp
qed

theorem translate_idempotent_witness:
  "(\<forall>s. isNumberText (percentString s)) \<and>
   \<not> includesStr ''=LN(ABS(A1))*50%'' ''%%'' \<and>
   ''=LN(ABS(A1))*0.5'' = evalPercentage percentString ''=LN(ABS(A1))*50%'' \<and>
   matchScan sumproductMatch 0 ''=LN(ABS(A1))*0.5'' = [] \<and>
   matchScan (callMatch ''AVERAGE'') 0 ''=LN(ABS(A1))*0.5'' = [] \<and>
   \<not> includesStr (toUpperCase ''=LN(ABS(A1))*0.5'') ''SUM'' \<and>
   matchScan (lnMatch []) 0 ''=LN(ABS(A1))*0.5'' = [] \<and>
   matchScan (pvMatch []) 0 ''=LN(ABS(A1))*0.5'' = [] \<and>
   translate percentString ''=LN(ABS(A1))*50%'' = ''=LN(ABS(A1))*0.5'' \<and>
   translate percentString (translate percentString ''=LN(ABS(A1))*50%'')
     = translate percentString ''=LN(ABS(A1))*50%''"
proof -
  have h1: "\<forall>s. isNumberText (percentString s)" by (simp add: percentString_number)
  have h2: "\<not> includesStr ''=LN(ABS(A1))*50%'' ''%%''" by code_simp
  have h3: "''=LN(ABS(A1))*0.5'' = evalPercentage percentString ''=LN(ABS(A1))*50%''" by code_simp
  have h4: "matchScan sumproductMatch 0 ''=LN(ABS(A1))*0.5'' = []" by code_simp
  have h5: "matchScan (callMatch ''AVERAGE'') 0 ''=LN(ABS(A1))*0.5'' = []" by code_simp
  have h6: "\<not> includesStr (toUpperCase ''=LN(ABS(A1))*0.5'') ''SUM''" by code_simp
  have h7: "matchScan (lnMatch []) 0 ''=LN(ABS(A1))*0.5'' = []" by code_simp
  have h8: "matchScan (pvMatch []) 0 ''=LN(ABS(A1))*0.5'' = []" by code_simp
  from translate_idempotent[OF h1 h2 h3 h4 h5 h6 h7 h8] h1 h2 h3 h4 h5 h6 h7 h8
  show ?thesis by blast
qed

section \<open>Evaluations at concrete inputs\<close>

text \<open>
  C1 (as stated) fails: \<open>=sum(A1:B2)+x\<close> holds a range over two column letters, which
  the SUM pass cannot resolve, and the pass does not return it character for character
  (it returns \<open>=_SUM(A1:B2)+X\<close>).
\<close>

theorem inlineSum_unchanged_counterexample:
  "inlineSum ''=sum(A1:B2)+x'' \<noteq> ''=sum(A1:B2)+x''"
  by code_simp

text \<open>
  C2: in a workbook with the sheets \<open>MyData\<close> and \<open>Data\<close>, in this order, the formula
  \<open>=B1\<close> of cell A1 of \<open>MyData\<close> is first wrapped as \<open>${metric:MyData!B1}\<close> by the pass
  for \<open>MyData\<close> and then wrapped again, inside, by the pass for \<open>Data\<close>.
\<close>

theorem getCellData_rewraps_suffix_sheet:
  "getCellData plainRegExp percentString (formulaCell ''MyData'' ''A1'' ''B1'' ''7'')
     [''MyData'', ''Data''] 1 2
   = Inr \<lparr> address = ''MyData!A1'', cvalue = ''7'', description = [],
           formula = ''=${metric:My${metric:Data!B1}}'', rowNum = 1, colNum = 2 \<rparr>"
  by code_simp

text \<open>
  C3 (as stated) fails, at two formulas that contain no function pattern.
  \<open>=50%%\<close> is translated to \<open>=0.5%\<close>, and translating that again gives \<open>=0.005\<close>.
  \<open>=PV(PV(1,2,3,,100%),2,3)\<close> matches none of the patterns, but once \<open>100%\<close> is evaluated
  to \<open>1\<close> the PV pass finds a call; what it leaves holds another call for the second run.
  The first formula forces the condition on percent signs, the second one forces the
  patterns to be read after the percentage pass.
\<close>

theorem translate_fixed_point_counterexample:
  "matchScan sumproductMatch 0 ''=50%%'' = [] \<and>
   matchScan (callMatch ''AVERAGE'') 0 ''=50%%'' = [] \<and>
   \<not> includesStr (toUpperCase ''=50%%'') ''SUM'' \<and>
   matchScan (lnMatch []) 0 ''=50%%'' = [] \<and>
   matchScan (pvMatch []) 0 ''=50%%'' = [] \<and>
   translate percentString (translate percentString ''=50%%'') \<noteq> translate percentString ''=50%%'' \<and>
   matchScan sumproductMatch 0 ''=PV(PV(1,2,3,,100%),2,3)'' = [] \<and>
   matchScan (callMatch ''AVERAGE'') 0 ''=PV(PV(1,2,3,,100%),2,3)'' = [] \<and>
   \<not> includesStr (toUpperCase ''=PV(PV(1,2,3,,100%),2,3)'') ''SUM'' \<and>
   matchScan (lnMatch []) 0 ''=PV(PV(1,2,3,,100%),2,3)'' = [] \<and>
   matchScan (pvMatch []) 0 ''=PV(PV(1,2,3,,100%),2,3)'' = [] \<and>
   \<not> includesStr ''=PV(PV(1,2,3,,100%),2,3)'' ''%%'' \<and>
   translate percentString (translate percentString ''=PV(PV(1,2,3,,100%),2,3)'')
     \<noteq> translate percentString ''=PV(PV(1,2,3,,100%),2,3)''"
  by code_simp

text \<open>
  C4: the only cell of a one-sheet workbook, in row 1 and column 1 (A1), receives
  \<open>rowNum = 1\<close> and \<open>colNum = 2\<close>.
\<close>

theorem makeGrid_first_column_is_two:
  "makeGrid plainRegExp percentString
     [\<lparr> w_name = ''Sheet1'', w_rows =
          [\<lparr> r_number = 1, r_cells = [(1, numCell ''Sheet1'' ''A1'' ''5'')] \<rparr>] \<rparr>]
   = Inr \<lparr> cells = [(''A1'', \<lparr> address = ''A1'', cvalue = ''5'', description = [], formula = [],
                               rowNum = 1, colNum = 2 \<rparr>)],
           sheetNames = [''Sheet1''] \<rparr>"
  by code_simp

text \<open>
  C7 (as stated) fails: a formula with a HYPERLINK call that is not at its start keeps
  the call, and the formula of the CellData is not empty.
\<close>

theorem getCellData_hyperlink_inside_counterexample:
  "getCellData plainRegExp percentString
     (formulaCell ''Sheet1'' ''C1'' ''A1+HYPERLINK(B1)'' ''x'') [''Sheet1''] 1 4
   = Inr \<lparr> address = ''C1'', cvalue = [], description = ''x'',
           formula = ''=${metric:A1}+HYPERLINK(${metric:B1})'', rowNum = 1, colNum = 4 \<rparr>"
  by code_simp

text \<open>
  C8: a cell whose formula refers to the cell itself is declared twice, since both
  tests of \<open>seen\<close> come before both additions to it.
\<close>

theorem mermaidLines_declares_twice:
  "mermaidLines \<lparr> cells = [(''B1'', \<lparr> address = ''B1'', cvalue = ''0'', description = ''Total'',
                                       formula = ''=${metric:B1}+1'', rowNum = 1, colNum = 3 \<rparr>)],
                  sheetNames = [''Sheet1''] \<rparr>
   = Inr [''B1[Total]'', ''B1[Total]'', ''B1 --> B1'']"
  by code_simp

text \<open>
  C9: with two sheets, one of them named \<open>Plan (v2\<close>, the source of the regular expression
  built from the sheet name has an unclosed parenthesis; the constructor throws, and so
  does grid construction.
\<close>

theorem makeGrid_throws_on_sheet_name:
  "makeGrid plainRegExp percentString
     [\<lparr> w_name = ''Plan (v2'', w_rows =
          [\<lparr> r_number = 1, r_cells = [(1, numCell ''Plan (v2'' ''A1'' ''5'')] \<rparr>] \<rparr>,
      \<lparr> w_name = ''Data'', w_rows = [] \<rparr>]
   = Inl SyntaxError"
  by code_simp


end
